theory Spec2Isabelle
  imports Complex_Main "HOL-Library.Sublist"
begin

section \<open>Loss functions of \<^verbatim>\<open>criterion.py\<close>\<close>

text \<open>
  The file \<^verbatim>\<open>criterion.py\<close> computes training losses from image tensors:
  \<^verbatim>\<open>masked_mse_loss\<close>, \<^verbatim>\<open>masked_l1_loss\<close>, the VGG feature extractors
  \<^verbatim>\<open>Vgg16\<close> and \<^verbatim>\<open>Vgg19\<close>, \<^verbatim>\<open>VGGLoss\<close>,
  \<^verbatim>\<open>normalize_minus_one_to_one\<close> and the module \<^verbatim>\<open>Criterion\<close>.

  Tensor elements are real numbers: rounding and overflow of the machine floats are not
  part of the model. What is part of it is the one way in which the code itself leaves the
  finite numbers: a division whose denominator is zero. IEEE arithmetic does not raise
  there, it returns an infinity or a NaN, and every operation the code applies to such a
  value afterwards (an addition, a product with a weight, the subtraction of one,
  \<^verbatim>\<open>.item()\<close>) yields an infinity or a NaN again. The type \<open>fl\<close> keeps the two
  apart from the finite results.
\<close>

subsection \<open>Errors and numbers\<close>

datatype error =
  RuntimeError | IndexError | ValueError | AttributeError | TypeError | NotImplementedError

datatype fl = Fin real | NonFinite

definition fdiv :: "real \<Rightarrow> real \<Rightarrow> fl" where
  "fdiv a b = (if b = 0 then NonFinite else Fin (a / b))"

fun fadd :: "fl \<Rightarrow> fl \<Rightarrow> fl" where
  "fadd (Fin a) (Fin b) = Fin (a + b)"
| "fadd _ _ = NonFinite"

fun fscale :: "real \<Rightarrow> fl \<Rightarrow> fl" where
  "fscale w (Fin a) = Fin (w * a)"
| "fscale w NonFinite = NonFinite"


subsection \<open>Tensors\<close>

text \<open>
  A tensor is its shape and its element at every index (a list of coordinates, one per
  dimension). Only the elements at the indices of the shape are meaningful; \<open>indices\<close>
  lists them in row-major order.
\<close>

record 'a tensor =
  shape :: "nat list"
  elem :: "nat list \<Rightarrow> 'a"

fun indices :: "nat list \<Rightarrow> nat list list" where
  "indices [] = [[]]"
| "indices (d # ds) = concat (map (\<lambda>i. map ((#) i) (indices ds)) [0..<d])"

definition numel :: "'a tensor \<Rightarrow> nat" where
  "numel t = prod_list (shape t)"

definition elems :: "'a tensor \<Rightarrow> 'a list" where
  "elems t = map (elem t) (indices (shape t))"

text \<open>A zero-dimensional tensor, the result of a full reduction.\<close>

definition scalar :: "'a \<Rightarrow> 'a tensor" where
  "scalar v = \<lparr>shape = [], elem = (\<lambda>idx. v)\<rparr>"

definition tmap :: "('a \<Rightarrow> 'b) \<Rightarrow> 'a tensor \<Rightarrow> 'b tensor" where
  "tmap f t = \<lparr>shape = shape t, elem = (\<lambda>idx. f (elem t idx))\<rparr>"

text \<open>
  Broadcasting, as torch defines it: the shapes are aligned at their last dimension; two
  sizes are compatible when they are equal or one of them is 1; a missing dimension counts
  as 1. \<open>broadcast_rev\<close> works on the reversed shapes.
\<close>

fun broadcast_rev :: "nat list \<Rightarrow> nat list \<Rightarrow> nat list option" where
  "broadcast_rev [] ys = Some ys"
| "broadcast_rev (x # xs) [] = Some (x # xs)"
| "broadcast_rev (x # xs) (y # ys) =
     (if x = y \<or> y = 1 then map_option ((#) x) (broadcast_rev xs ys)
      else if x = 1 then map_option ((#) y) (broadcast_rev xs ys)
      else None)"

definition broadcast_shapes :: "nat list \<Rightarrow> nat list \<Rightarrow> nat list option" where
  "broadcast_shapes s t = map_option rev (broadcast_rev (rev s) (rev t))"

text \<open>
  The index at which a tensor of shape \<open>s\<close> is read when it is expanded to a larger
  shape and the result is read at \<open>idx\<close>: the leading coordinates it does not have are
  dropped, and a dimension of size 1 is read at 0.
\<close>

definition bidx :: "nat list \<Rightarrow> nat list \<Rightarrow> nat list" where
  "bidx s idx = map2 (\<lambda>d i. if d = 1 then 0 else i) s (drop (length idx - length s) idx)"

definition binop :: "('a \<Rightarrow> 'b \<Rightarrow> 'c) \<Rightarrow> 'a tensor \<Rightarrow> 'b tensor \<Rightarrow> error + 'c tensor" where
  "binop f a b =
     (case broadcast_shapes (shape a) (shape b) of
        None \<Rightarrow> Inl RuntimeError
      | Some s \<Rightarrow> Inr \<lparr>shape = s,
          elem = (\<lambda>idx. f (elem a (bidx (shape a) idx)) (elem b (bidx (shape b) idx)))\<rparr>)"

text \<open>\<^verbatim>\<open>torch.sum(t)\<close> and \<^verbatim>\<open>t.mean()\<close>; the mean of no element is 0/0.\<close>

definition torch_sum :: "real tensor \<Rightarrow> real tensor" where
  "torch_sum t = scalar (sum_list (elems t))"

definition torch_mean :: "real tensor \<Rightarrow> fl tensor" where
  "torch_mean t = scalar (fdiv (sum_list (elems t)) (real (numel t)))"

text \<open>
  \<^verbatim>\<open>F.mse_loss\<close> and \<^verbatim>\<open>F.l1_loss\<close> broadcast their two arguments, take the
  squared or absolute difference of the elements and, unless \<^verbatim>\<open>reduction='none'\<close>,
  the mean of the result.
\<close>

definition F_mse_loss_none :: "real tensor \<Rightarrow> real tensor \<Rightarrow> error + real tensor" where
  "F_mse_loss_none a b = binop (\<lambda>x y. (x - y)\<^sup>2) a b"

definition F_mse_loss :: "real tensor \<Rightarrow> real tensor \<Rightarrow> error + fl tensor" where
  "F_mse_loss a b = (case F_mse_loss_none a b of Inl e \<Rightarrow> Inl e | Inr d \<Rightarrow> Inr (torch_mean d))"

definition F_l1_loss_none :: "real tensor \<Rightarrow> real tensor \<Rightarrow> error + real tensor" where
  "F_l1_loss_none a b = binop (\<lambda>x y. \<bar>x - y\<bar>) a b"

definition F_l1_loss :: "real tensor \<Rightarrow> real tensor \<Rightarrow> error + fl tensor" where
  "F_l1_loss a b = (case F_l1_loss_none a b of Inl e \<Rightarrow> Inl e | Inr d \<Rightarrow> Inr (torch_mean d))"

subsection \<open>The masked losses\<close>

text \<open>
  \<^verbatim>\<open>torch.sum(sum_loss * mask) / (ndim * torch.sum(mask) + 1e-8)\<close>, the last line of
  both masked losses. \<^verbatim>\<open>sum_loss.shape[1]\<close> raises IndexError on a tensor of fewer than
  two dimensions.
\<close>

definition masked_mean :: "real tensor \<Rightarrow> real tensor \<Rightarrow> error + fl tensor" where
  "masked_mean sum_loss m =
     (if length (shape sum_loss) < 2 then Inl IndexError
      else let ndim = shape sum_loss ! 1 in
        case binop (*) sum_loss m of
          Inl e \<Rightarrow> Inl e
        | Inr weighted \<Rightarrow>
            binop fdiv (torch_sum weighted)
              (tmap (\<lambda>v. v + 1 / 10 ^ 8) (tmap (\<lambda>v. real ndim * v) (torch_sum m))))"

definition masked_mse_loss ::
  "real tensor \<Rightarrow> real tensor \<Rightarrow> real tensor option \<Rightarrow> error + fl tensor" where
  "masked_mse_loss pred gt mask_opt =
     (case mask_opt of
        None \<Rightarrow> F_mse_loss pred gt
      | Some m \<Rightarrow>
          (case F_mse_loss_none pred gt of
             Inl e \<Rightarrow> Inl e
           | Inr sum_loss \<Rightarrow> masked_mean sum_loss m))"

subsection \<open>What the file takes from outside\<close>

text \<open>
  The pretrained networks of \<^verbatim>\<open>torchvision\<close>, \<^verbatim>\<open>F.interpolate\<close>, the
  \<^verbatim>\<open>lpips\<close> package and \<^verbatim>\<open>core.utils.crop_boundary\<close> are not defined in
  \<^verbatim>\<open>criterion.py\<close>. They are parameters here, and each may raise.

  A parameter of a network is its data and its \<^verbatim>\<open>requires_grad\<close> flag; a layer (one
  entry of \<^verbatim>\<open>vgg.features\<close>) is its parameters and its forward function.
\<close>

record parameter =
  pdata :: "real tensor"
  requires_grad :: bool

record layer =
  params :: "parameter list"
  run :: "real tensor \<Rightarrow> error + real tensor"

datatype size_arg = Size_int nat | Size_seq "nat list"

record ext =
  F_interpolate :: "real tensor \<Rightarrow> size_arg \<Rightarrow> string \<Rightarrow> bool option \<Rightarrow> error + real tensor"
    \<comment> \<open>\<^verbatim>\<open>F.interpolate(input, size=, mode=, align_corners=)\<close>\<close>
  models_vgg16 :: "bool \<Rightarrow> layer list"
    \<comment> \<open>\<^verbatim>\<open>models.vgg16(pretrained=).features\<close>\<close>
  models_vgg19 :: "bool \<Rightarrow> layer list"
    \<comment> \<open>\<^verbatim>\<open>models.vgg19(pretrained=).features\<close>\<close>
  lpips_LPIPS :: "string \<Rightarrow> real tensor \<Rightarrow> real tensor \<Rightarrow> real tensor option option
      \<Rightarrow> error + fl tensor"
    \<comment> \<open>\<^verbatim>\<open>lpips.LPIPS(net=)(in0, in1)\<close>; the last argument is a third positional
      argument, when the call passes one\<close>
  crop_boundary :: "real tensor \<Rightarrow> real \<Rightarrow> error + real tensor"
    \<comment> \<open>\<^verbatim>\<open>core.utils.crop_boundary(x, ratio)\<close>\<close>

text \<open>\<^verbatim>\<open>s[-2:]\<close> of a shape.\<close>

definition last2 :: "nat list \<Rightarrow> nat list" where
  "last2 s = drop (length s - 2) s"

definition masked_l1_loss ::
  "ext \<Rightarrow> real tensor \<Rightarrow> real tensor \<Rightarrow> real tensor option \<Rightarrow> error + fl tensor" where
  "masked_l1_loss ex pred gt mask_opt =
     (case mask_opt of
        None \<Rightarrow> F_l1_loss pred gt
      | Some m \<Rightarrow>
          (case (if last2 (shape m) \<noteq> last2 (shape pred)
                 then F_interpolate ex m (Size_seq (last2 (shape pred))) ''nearest'' None
                 else Inr m) of
             Inl e \<Rightarrow> Inl e
           | Inr m' \<Rightarrow>
               (case F_l1_loss_none pred gt of
                  Inl e \<Rightarrow> Inl e
                | Inr sum_loss \<Rightarrow> masked_mean sum_loss m')))"

subsection \<open>The VGG feature extractors\<close>

text \<open>
  \<^verbatim>\<open>nn.Sequential\<close> is the list of its layers in the order they were added (the names
  \<^verbatim>\<open>str(x)\<close> they are registered under play no role). \<^verbatim>\<open>features[x]\<close> raises
  IndexError when the network has no layer \<open>x\<close>.
\<close>

fun add_modules :: "layer list \<Rightarrow> layer list \<Rightarrow> nat list \<Rightarrow> error + layer list" where
  "add_modules seq features [] = Inr seq"
| "add_modules seq features (x # xs) =
     (if x < length features then add_modules (seq @ [features ! x]) features xs
      else Inl IndexError)"

fun Sequential_forward :: "layer list \<Rightarrow> real tensor \<Rightarrow> error + real tensor" where
  "Sequential_forward [] x = Inr x"
| "Sequential_forward (l # ls) x =
     (case run l x of Inl e \<Rightarrow> Inl e | Inr h \<Rightarrow> Sequential_forward ls h)"

definition freeze :: "layer list \<Rightarrow> layer list" where
  "freeze ls = map (\<lambda>l. l\<lparr>params := map (\<lambda>p. p\<lparr>requires_grad := False\<rparr>) (params l)\<rparr>) ls"

record Vgg16 =
  to_relu_1_2 :: "layer list"
  to_relu_2_2 :: "layer list"
  to_relu_3_3 :: "layer list"
  to_relu_4_3 :: "layer list"

definition Vgg16_parameters :: "Vgg16 \<Rightarrow> parameter list" where
  "Vgg16_parameters n =
     concat (map params (to_relu_1_2 n @ to_relu_2_2 n @ to_relu_3_3 n @ to_relu_4_3 n))"

definition Vgg16_init :: "ext \<Rightarrow> error + Vgg16" where
  "Vgg16_init ex =
     (let features = models_vgg16 ex True in
      (case add_modules [] features [0..<4] of Inl e \<Rightarrow> Inl e | Inr s1 \<Rightarrow>
      (case add_modules [] features [4..<9] of Inl e \<Rightarrow> Inl e | Inr s2 \<Rightarrow>
      (case add_modules [] features [9..<16] of Inl e \<Rightarrow> Inl e | Inr s3 \<Rightarrow>
      (case add_modules [] features [16..<23] of Inl e \<Rightarrow> Inl e | Inr s4 \<Rightarrow>
        Inr \<lparr>to_relu_1_2 = freeze s1, to_relu_2_2 = freeze s2,
             to_relu_3_3 = freeze s3, to_relu_4_3 = freeze s4\<rparr>)))))"

definition Vgg16_forward :: "Vgg16 \<Rightarrow> real tensor \<Rightarrow> error + real tensor list" where
  "Vgg16_forward n x =
     (case Sequential_forward (to_relu_1_2 n) x of Inl e \<Rightarrow> Inl e | Inr h_relu_1_2 \<Rightarrow>
      (case Sequential_forward (to_relu_2_2 n) h_relu_1_2 of Inl e \<Rightarrow> Inl e | Inr h_relu_2_2 \<Rightarrow>
      (case Sequential_forward (to_relu_3_3 n) h_relu_2_2 of Inl e \<Rightarrow> Inl e | Inr h_relu_3_3 \<Rightarrow>
      (case Sequential_forward (to_relu_4_3 n) h_relu_3_3 of Inl e \<Rightarrow> Inl e | Inr h_relu_4_3 \<Rightarrow>
        Inr [h_relu_1_2, h_relu_2_2, h_relu_3_3, h_relu_4_3]))))"

record Vgg19 =
  slice1 :: "layer list"
  slice2 :: "layer list"
  slice3 :: "layer list"
  slice4 :: "layer list"
  slice5 :: "layer list"

definition Vgg19_parameters :: "Vgg19 \<Rightarrow> parameter list" where
  "Vgg19_parameters n =
     concat (map params (slice1 n @ slice2 n @ slice3 n @ slice4 n @ slice5 n))"

definition Vgg19_init :: "ext \<Rightarrow> bool \<Rightarrow> error + Vgg19" where
  "Vgg19_init ex req_grad =
     (let vgg_pretrained_features = models_vgg19 ex True in
      (case add_modules [] vgg_pretrained_features [0..<2] of Inl e \<Rightarrow> Inl e | Inr s1 \<Rightarrow>
      (case add_modules [] vgg_pretrained_features [2..<7] of Inl e \<Rightarrow> Inl e | Inr s2 \<Rightarrow>
      (case add_modules [] vgg_pretrained_features [7..<12] of Inl e \<Rightarrow> Inl e | Inr s3 \<Rightarrow>
      (case add_modules [] vgg_pretrained_features [12..<21] of Inl e \<Rightarrow> Inl e | Inr s4 \<Rightarrow>
      (case add_modules [] vgg_pretrained_features [21..<30] of Inl e \<Rightarrow> Inl e | Inr s5 \<Rightarrow>
        if \<not> req_grad
        then Inr \<lparr>slice1 = freeze s1, slice2 = freeze s2, slice3 = freeze s3,
                  slice4 = freeze s4, slice5 = freeze s5\<rparr>
        else Inr \<lparr>slice1 = s1, slice2 = s2, slice3 = s3, slice4 = s4, slice5 = s5\<rparr>))))))"

definition Vgg19_forward :: "Vgg19 \<Rightarrow> real tensor \<Rightarrow> error + real tensor list" where
  "Vgg19_forward n x =
     (case Sequential_forward (slice1 n) x of Inl e \<Rightarrow> Inl e | Inr h_relu1 \<Rightarrow>
      (case Sequential_forward (slice2 n) h_relu1 of Inl e \<Rightarrow> Inl e | Inr h_relu2 \<Rightarrow>
      (case Sequential_forward (slice3 n) h_relu2 of Inl e \<Rightarrow> Inl e | Inr h_relu3 \<Rightarrow>
      (case Sequential_forward (slice4 n) h_relu3 of Inl e \<Rightarrow> Inl e | Inr h_relu4 \<Rightarrow>
      (case Sequential_forward (slice5 n) h_relu4 of Inl e \<Rightarrow> Inl e | Inr h_relu5 \<Rightarrow>
        Inr [h_relu1, h_relu2, h_relu3, h_relu4, h_relu5])))))"

subsection \<open>VGGLoss\<close>

text \<open>
  \<^verbatim>\<open>VGGLoss.__init__\<close> sets \<^verbatim>\<open>self.vgg\<close> and \<^verbatim>\<open>self.weights\<close> for the two
  model names it knows and leaves them unset for any other; \<^verbatim>\<open>self.loss_func\<close> is
  always \<^verbatim>\<open>masked_l1_loss\<close>. Moving the network to a device is not modelled.
\<close>

datatype vgg_net = Net16 Vgg16 | Net19 Vgg19

record VGGLoss =
  vgg :: "vgg_net option"
  weights :: "real list option"

definition VGGLoss_init :: "ext \<Rightarrow> string \<Rightarrow> error + VGGLoss" where
  "VGGLoss_init ex model =
     (if model = ''vgg16'' then
        (case Vgg16_init ex of
           Inl e \<Rightarrow> Inl e
         | Inr n \<Rightarrow> Inr \<lparr>vgg = Some (Net16 n), weights = Some [1 / 16, 1 / 8, 1 / 4, 1]\<rparr>)
      else if model = ''vgg19'' then
        (case Vgg19_init ex False of
           Inl e \<Rightarrow> Inl e
         | Inr n \<Rightarrow> Inr \<lparr>vgg = Some (Net19 n), weights = Some [1 / 32, 1 / 16, 1 / 8, 1 / 4, 1]\<rparr>)
      else Inr \<lparr>vgg = None, weights = None\<rparr>)"

fun vgg_forward :: "vgg_net \<Rightarrow> real tensor \<Rightarrow> error + real tensor list" where
  "vgg_forward (Net16 n) x = Vgg16_forward n x"
| "vgg_forward (Net19 n) x = Vgg19_forward n x"

text \<open>\<^verbatim>\<open>torch.tensor(xs).reshape(1, 3, 1, 1)\<close> for a list of three numbers.\<close>

definition channel_vec :: "real list \<Rightarrow> real tensor" where
  "channel_vec xs = \<lparr>shape = [1, length xs, 1, 1], elem = (\<lambda>idx. xs ! (idx ! 1))\<rparr>"

definition preprocess :: "real tensor \<Rightarrow> error + real tensor" where
  "preprocess x =
     (case binop (-) x (channel_vec [485 / 1000, 456 / 1000, 406 / 1000]) of
        Inl e \<Rightarrow> Inl e
      | Inr d \<Rightarrow> binop (/) d (channel_vec [229 / 1000, 224 / 1000, 225 / 1000]))"

text \<open>
  The mask of \<^verbatim>\<open>VGGLoss.forward\<close>: resized to the given size when there is one.
  \<^verbatim>\<open>min\<close> of an empty \<^verbatim>\<open>mask.shape[-2:]\<close> raises ValueError.
\<close>

definition resize_mask :: "ext \<Rightarrow> real tensor option \<Rightarrow> nat \<Rightarrow> error + real tensor option" where
  "resize_mask ex mask_opt sz =
     (case mask_opt of
        None \<Rightarrow> Inr None
      | Some m \<Rightarrow>
          if last2 (shape m) = [] then Inl ValueError
          else
            (case (if Min (set (last2 (shape m))) \<le> sz
                   then F_interpolate ex m (Size_int sz) ''bilinear'' (Some True)
                   else F_interpolate ex m (Size_int sz) ''area'' None) of
               Inl e \<Rightarrow> Inl e
             | Inr m' \<Rightarrow> Inr (Some m')))"

text \<open>
  \<^verbatim>\<open>loss += t\<close> on tensors is in place: \<open>t\<close> is broadcast to the shape of
  \<open>loss\<close>, which cannot change.
\<close>

definition iadd :: "fl tensor \<Rightarrow> fl tensor \<Rightarrow> error + fl tensor" where
  "iadd a b =
     (case broadcast_shapes (shape a) (shape b) of
        None \<Rightarrow> Inl RuntimeError
      | Some s \<Rightarrow> if s \<noteq> shape a then Inl RuntimeError else binop fadd a b)"

text \<open>
  The loop \<^verbatim>\<open>for i in range(len(x_vgg)): loss += self.weights[i] *
  self.loss_func(x_vgg[i], y_vgg[i], mask)\<close>, over the list of the indices still to visit.
  A missing \<^verbatim>\<open>self.weights\<close> raises AttributeError, an index outside
  \<^verbatim>\<open>self.weights\<close> or \<^verbatim>\<open>y_vgg\<close> IndexError (\<^verbatim>\<open>x_vgg[i]\<close> is in
  range for the indices the loop visits).
\<close>

fun loss_loop ::
  "ext \<Rightarrow> real list option \<Rightarrow> real tensor list \<Rightarrow> real tensor list \<Rightarrow> real tensor option
     \<Rightarrow> nat list \<Rightarrow> fl tensor \<Rightarrow> error + fl tensor" where
  "loss_loop ex ws x_vgg y_vgg m [] loss = Inr loss"
| "loss_loop ex ws x_vgg y_vgg m (i # rest) loss =
     (case ws of
        None \<Rightarrow> Inl AttributeError
      | Some w \<Rightarrow>
          if \<not> i < length w \<or> \<not> i < length x_vgg \<or> \<not> i < length y_vgg then Inl IndexError
          else
            (case masked_l1_loss ex (x_vgg ! i) (y_vgg ! i) m of
               Inl e \<Rightarrow> Inl e
             | Inr l \<Rightarrow>
                 (case iadd loss (tmap (fscale (w ! i)) l) of
                    Inl e \<Rightarrow> Inl e
                  | Inr loss' \<Rightarrow> loss_loop ex ws x_vgg y_vgg m rest loss')))"

definition VGGLoss_forward ::
  "ext \<Rightarrow> VGGLoss \<Rightarrow> real tensor \<Rightarrow> real tensor \<Rightarrow> real tensor option \<Rightarrow> nat
     \<Rightarrow> error + fl tensor" where
  "VGGLoss_forward ex self x y mask_opt sz =
     (case preprocess x of Inl e \<Rightarrow> Inl e | Inr x' \<Rightarrow>
      (case preprocess y of Inl e \<Rightarrow> Inl e | Inr y' \<Rightarrow>
      (case resize_mask ex mask_opt sz of Inl e \<Rightarrow> Inl e | Inr m' \<Rightarrow>
      (case vgg self of None \<Rightarrow> Inl AttributeError | Some net \<Rightarrow>
      (case vgg_forward net x' of Inl e \<Rightarrow> Inl e | Inr x_vgg \<Rightarrow>
      (case vgg_forward net y' of Inl e \<Rightarrow> Inl e | Inr y_vgg \<Rightarrow>
      (case masked_l1_loss ex x' y' m' of Inl e \<Rightarrow> Inl e | Inr loss \<Rightarrow>
        loss_loop ex (weights self) x_vgg y_vgg m' [0..<length x_vgg] loss)))))))"

subsection \<open>normalize_minus_one_to_one\<close>




subsection \<open>Criterion\<close>

record args =
  args_local_rank :: int
  args_boundary_crop_ratio :: real
  args_loss_mode :: string

datatype loss_func =
  LF_VGGLoss VGGLoss | LF_LPIPS string | LF_masked_mse_loss | LF_masked_l1_loss

record Criterion =
  crop_ratio :: real
  loss_mode :: string
  loss_func :: loss_func

text \<open>\<^verbatim>\<open>needle in hay\<close> on Python strings.\<close>

fun str_in :: "string \<Rightarrow> string \<Rightarrow> bool" where
  "str_in needle [] = (needle = [])"
| "str_in needle (c # cs) = (prefix needle (c # cs) \<or> str_in needle cs)"

definition Criterion_init :: "ext \<Rightarrow> args \<Rightarrow> error + Criterion" where
  "Criterion_init ex a =
     (if str_in ''vgg'' (args_loss_mode a) then
        (case VGGLoss_init ex (args_loss_mode a) of
           Inl e \<Rightarrow> Inl e
         | Inr v \<Rightarrow> Inr \<lparr>crop_ratio = args_boundary_crop_ratio a,
                        loss_mode = args_loss_mode a, loss_func = LF_VGGLoss v\<rparr>)
      else if args_loss_mode a = ''lpips'' then
        Inr \<lparr>crop_ratio = args_boundary_crop_ratio a,
             loss_mode = args_loss_mode a, loss_func = LF_LPIPS ''vgg''\<rparr>
      else if args_loss_mode a = ''mse'' then
        Inr \<lparr>crop_ratio = args_boundary_crop_ratio a,
             loss_mode = args_loss_mode a, loss_func = LF_masked_mse_loss\<rparr>
      else if args_loss_mode a = ''l1'' then
        Inr \<lparr>crop_ratio = args_boundary_crop_ratio a,
             loss_mode = args_loss_mode a, loss_func = LF_masked_l1_loss\<rparr>
      else Inl NotImplementedError)"

text \<open>
  \<^verbatim>\<open>self.loss_func(a, b)\<close> and \<^verbatim>\<open>self.loss_func(a, b, mask)\<close>: the mask and the
  size of the callee take their defaults when they are not passed.
\<close>

fun call2 :: "ext \<Rightarrow> loss_func \<Rightarrow> real tensor \<Rightarrow> real tensor \<Rightarrow> error + fl tensor" where
  "call2 ex (LF_VGGLoss v) a b = VGGLoss_forward ex v a b None 224"
| "call2 ex (LF_LPIPS net) a b = lpips_LPIPS ex net a b None"
| "call2 ex LF_masked_mse_loss a b = masked_mse_loss a b None"
| "call2 ex LF_masked_l1_loss a b = masked_l1_loss ex a b None"

fun call3 ::
  "ext \<Rightarrow> loss_func \<Rightarrow> real tensor \<Rightarrow> real tensor \<Rightarrow> real tensor option \<Rightarrow> error + fl tensor" where
  "call3 ex (LF_VGGLoss v) a b m = VGGLoss_forward ex v a b m 224"
| "call3 ex (LF_LPIPS net) a b m = lpips_LPIPS ex net a b (Some m)"
| "call3 ex LF_masked_mse_loss a b m = masked_mse_loss a b m"
| "call3 ex LF_masked_l1_loss a b m = masked_l1_loss ex a b m"

text \<open>\<^verbatim>\<open>t.item()\<close>: the one element of a tensor that has exactly one.\<close>

definition item :: "'a tensor \<Rightarrow> error + 'a" where
  "item t =
     (if numel t = 1 then Inr (elem t (replicate (length (shape t)) 0)) else Inl RuntimeError)"

definition crop :: "ext \<Rightarrow> Criterion \<Rightarrow> real tensor \<Rightarrow> error + real tensor" where
  "crop ex self x = (if crop_ratio self > 0 then crop_boundary ex x (crop_ratio self) else Inr x)"

text \<open>
  \<^verbatim>\<open>Criterion.forward\<close> writes into the dictionary \<^verbatim>\<open>scalar_to_log\<close> it is given and
  returns that dictionary beside the loss. The model returns the outcome (the loss, or the
  exception raised) and the dictionary as the call leaves it; on a normal return the pair
  is the tuple the code returns. \<^verbatim>\<open>res_dict\<close> and \<^verbatim>\<open>step\<close> are not used.
\<close>

definition Criterion_forward ::
  "ext \<Rightarrow> Criterion \<Rightarrow> real tensor \<Rightarrow> real tensor \<Rightarrow> real tensor option \<Rightarrow> int
     \<Rightarrow> (string \<rightharpoonup> fl) \<Rightarrow> (error + fl tensor) \<times> (string \<rightharpoonup> fl)" where
  "Criterion_forward ex self pred0 target0 mask_opt is_multi_view scalar_to_log =
     (case crop ex self pred0 of Inl e \<Rightarrow> (Inl e, scalar_to_log) | Inr pred \<Rightarrow>
      (case crop ex self target0 of Inl e \<Rightarrow> (Inl e, scalar_to_log) | Inr target \<Rightarrow>
        if loss_mode self = ''lpips'' then
          (case call2 ex (loss_func self) (tmap (\<lambda>v. 2 * v - 1) pred)
                  (tmap (\<lambda>v. 2 * v - 1) target) of
             Inl e \<Rightarrow> (Inl e, scalar_to_log)
           | Inr loss \<Rightarrow>
               (case item loss of
                  Inl e \<Rightarrow> (Inl e, scalar_to_log)
                | Inr v \<Rightarrow>
                    let log1 = scalar_to_log(''loss_perceptual'' \<mapsto> v) in
                    if is_multi_view = 0 then
                      (case masked_l1_loss ex pred target mask_opt of
                         Inl e \<Rightarrow> (Inl e, log1)
                       | Inr l1_loss \<Rightarrow>
                           (case binop fadd loss l1_loss of
                              Inl e \<Rightarrow> (Inl e, log1)
                            | Inr loss' \<Rightarrow>
                                (case item l1_loss of
                                   Inl e \<Rightarrow> (Inl e, log1)
                                 | Inr v1 \<Rightarrow> (Inr loss', log1(''loss_l1'' \<mapsto> v1)))))
                    else (Inr loss, log1)))
        else (call3 ex (loss_func self) pred target mask_opt, scalar_to_log)))"

subsection \<open>Concrete inputs\<close>

text \<open>
  Small tensors and stand-ins for the outside functions, on which the definitions above
  can be run. \<open>tensor_of s xs\<close> is \<^verbatim>\<open>torch.tensor(xs).reshape(s)\<close>.
\<close>

definition ravel :: "nat list \<Rightarrow> nat list \<Rightarrow> nat" where
  "ravel s idx = foldl (\<lambda>acc (d, i). acc * d + i) 0 (zip s idx)"

definition tensor_of :: "nat list \<Rightarrow> 'a list \<Rightarrow> 'a tensor" where
  "tensor_of s xs = \<lparr>shape = s, elem = (\<lambda>idx. xs ! ravel s idx)\<rparr>"

definition ex_pred :: "real tensor" where
  "ex_pred = tensor_of [1, 2, 1, 2] [1, 2, 3, 4]"

definition ex_gt :: "real tensor" where
  "ex_gt = tensor_of [1, 2, 1, 2] [0, 0, 1, 1]"






text \<open>
  A stand-in for \<^verbatim>\<open>F.interpolate\<close>: nearest-neighbour resizing of a tensor of four
  dimensions, whatever the mode.
\<close>

fun size_hw :: "size_arg \<Rightarrow> (nat \<times> nat) option" where
  "size_hw (Size_int n) = Some (n, n)"
| "size_hw (Size_seq [h, w]) = Some (h, w)"
| "size_hw (Size_seq _) = None"

definition ex_interpolate ::
  "real tensor \<Rightarrow> size_arg \<Rightarrow> string \<Rightarrow> bool option \<Rightarrow> error + real tensor" where
  "ex_interpolate t sz mode align_corners =
     (if length (shape t) \<noteq> 4 then Inl ValueError
      else case size_hw sz of
        None \<Rightarrow> Inl ValueError
      | Some (h, w) \<Rightarrow>
          Inr \<lparr>shape = [shape t ! 0, shape t ! 1, h, w],
               elem = (\<lambda>idx. elem t [idx ! 0, idx ! 1,
                  idx ! 2 * (shape t ! 2) div h, idx ! 3 * (shape t ! 3) div w])\<rparr>)"

text \<open>
  Stand-ins for the pretrained networks: layers with one trainable parameter each, which
  pass their input on unchanged. For LPIPS: one distance per batch element, in a tensor of
  shape \<open>[B, 1, 1, 1]\<close>. For \<^verbatim>\<open>crop_boundary\<close>: no cropping.
\<close>

definition ex_layer :: layer where
  "ex_layer = \<lparr>params = [\<lparr>pdata = scalar 1, requires_grad = True\<rparr>],
               run = (\<lambda>x. Inr x)\<rparr>"

definition ex_lpips ::
  "string \<Rightarrow> real tensor \<Rightarrow> real tensor \<Rightarrow> real tensor option option \<Rightarrow> error + fl tensor" where
  "ex_lpips net a b extra =
     Inr \<lparr>shape = [shape a ! 0, 1, 1, 1],
          elem = (\<lambda>idx. Fin \<bar>elem a [idx ! 0, 0, 0, 0] - elem b [idx ! 0, 0, 0, 0]\<bar>)\<rparr>"

definition ex_ext :: ext where
  "ex_ext = \<lparr>F_interpolate = ex_interpolate,
             models_vgg16 = (\<lambda>pretrained. replicate 31 ex_layer),
             models_vgg19 = (\<lambda>pretrained. replicate 37 ex_layer),
             lpips_LPIPS = ex_lpips,
             crop_boundary = (\<lambda>x ratio. Inr x)\<rparr>"

definition ex_args :: "string \<Rightarrow> args" where
  "ex_args mode = \<lparr>args_local_rank = 0, args_boundary_crop_ratio = 0, args_loss_mode = mode\<rparr>"

definition ex_x :: "real tensor" where
  "ex_x = tensor_of [1, 3, 1, 1] [714 / 1000, 456 / 1000, 406 / 1000]"

definition ex_y :: "real tensor" where
  "ex_y = tensor_of [1, 3, 1, 1] [485 / 1000, 456 / 1000, 406 / 1000]"

section \<open>Properties\<close>

subsection \<open>Indices and broadcasting\<close>

lemma indices_iff:
  "idx \<in> set (indices s) \<longleftrightarrow> list_all2 (<) idx s"
proof (induction s arbitrary: idx)
  case Nil
  then show ?case by simp
next
  case (Cons d ds)
  show ?case
    by (cases idx) (auto simp: Cons.IH image_iff)
qed



lemma bidx_same:
  assumes "idx \<in> set (indices s)"
  shows "bidx s idx = idx"
proof -
  from assms have l: "list_all2 (<) idx s" by (simp add: indices_iff)
  then have len: "length idx = length s" by (rule list_all2_lengthD)
  have "map2 (\<lambda>d i. if d = 1 then 0 else i) s idx = idx"
    using l by (induction idx s rule: list_all2_induct) auto
  then show ?thesis by (simp add: bidx_def len)
qed

lemma bidx_Nil [simp]: "bidx [] idx = []"
  by (simp add: bidx_def)

lemma broadcast_rev_same [simp]: "broadcast_rev xs xs = Some xs"
  by (induction xs) auto

lemma broadcast_rev_Nil2 [simp]: "broadcast_rev xs [] = Some xs"
  by (cases xs) auto

lemma broadcast_shapes_same [simp]: "broadcast_shapes s s = Some s"
  by (simp add: broadcast_shapes_def)

lemma broadcast_shapes_Nil2 [simp]: "broadcast_shapes s [] = Some s"
  by (simp add: broadcast_shapes_def)

lemma broadcast_shapes_Nil1 [simp]: "broadcast_shapes [] s = Some s"
  by (simp add: broadcast_shapes_def)

lemma binop_scalar [simp]: "binop f (scalar a) (scalar b) = Inr (scalar (f a b))"
  by (simp add: binop_def scalar_def)

lemma tmap_scalar [simp]: "tmap f (scalar a) = scalar (f a)"
  by (simp add: tmap_def scalar_def)

lemma binop_Some:
  "broadcast_shapes (shape a) (shape b) = Some s \<Longrightarrow>
   binop f a b = Inr \<lparr>shape = s,
     elem = (\<lambda>idx. f (elem a (bidx (shape a) idx)) (elem b (bidx (shape b) idx)))\<rparr>"
  by (simp add: binop_def)



lemma F_mse_loss_none_same:
  assumes "shape gt = shape pred"
  shows "F_mse_loss_none pred gt = Inr \<lparr>shape = shape pred,
     elem = (\<lambda>idx. (elem pred (bidx (shape pred) idx) - elem gt (bidx (shape pred) idx))\<^sup>2)\<rparr>"
  using assms by (simp add: F_mse_loss_none_def binop_Some)

lemma sum_bidx_indices:
  "(\<Sum>idx\<leftarrow>indices s. g (bidx s idx)) = (\<Sum>idx\<leftarrow>indices s. g idx)"
  by (rule arg_cong [where f = sum_list], rule map_cong) (simp_all add: bidx_same)

lemma torch_mean_same:
  "torch_mean \<lparr>shape = s, elem = (\<lambda>idx. g (bidx s idx))\<rparr> =
     scalar (fdiv (\<Sum>idx\<leftarrow>indices s. g idx) (real (prod_list s)))"
  by (simp add: torch_mean_def elems_def numel_def comp_def sum_bidx_indices)

lemma map2_idem:
  assumes "\<And>d i. f d (f d i) = f d i"
  shows "map2 f s (map2 f s xs) = map2 f s xs"
proof (induction s arbitrary: xs)
  case Nil
  then show ?case by simp
next
  case (Cons d ds)
  then show ?case by (cases xs) (auto simp: assms)
qed

lemma bidx_idem [simp]: "bidx s (bidx s idx) = bidx s idx"
proof -
  have "length (bidx s idx) - length s = 0"
    by (simp add: bidx_def)
  then have "bidx s (bidx s idx) =
      map2 (\<lambda>d i. if d = 1 then 0 else i) s (bidx s idx)"
    by (simp add: bidx_def [of s "bidx s idx"])
  also have "\<dots> = bidx s idx"
    unfolding bidx_def by (rule map2_idem) simp
  finally show ?thesis .
qed

lemma F_l1_loss_none_same:
  assumes "shape gt = shape pred"
  shows "F_l1_loss_none pred gt = Inr \<lparr>shape = shape pred,
     elem = (\<lambda>idx. \<bar>elem pred (bidx (shape pred) idx) - elem gt (bidx (shape pred) idx)\<bar>)\<rparr>"
  using assms by (simp add: F_l1_loss_none_def binop_Some)

lemma masked_l1_loss_None:
  assumes "shape gt = shape pred"
  shows "masked_l1_loss ex pred gt None =
      Inr (scalar (fdiv (\<Sum>idx\<leftarrow>indices (shape pred). \<bar>elem pred idx - elem gt idx\<bar>)
                        (real (prod_list (shape pred)))))"
  using torch_mean_same [of "shape pred" "\<lambda>idx. \<bar>elem pred idx - elem gt idx\<bar>"]
  by (simp add: masked_l1_loss_def F_l1_loss_def F_l1_loss_none_same [OF assms])


lemma masked_mse_loss_None:
  assumes "shape gt = shape pred"
  shows "masked_mse_loss pred gt None =
      Inr (scalar (fdiv (\<Sum>idx\<leftarrow>indices (shape pred). (elem pred idx - elem gt idx)\<^sup>2)
                        (real (prod_list (shape pred)))))"
  using torch_mean_same [of "shape pred" "\<lambda>idx. (elem pred idx - elem gt idx)\<^sup>2"]
  by (simp add: masked_mse_loss_def F_mse_loss_def F_mse_loss_none_same [OF assms])


subsection \<open>The masked losses\<close>









subsection \<open>normalize_minus_one_to_one\<close>


lemma binop_scalar_right:
  "binop f a (scalar v) =
     Inr \<lparr>shape = shape a, elem = (\<lambda>idx. f (elem a (bidx (shape a) idx)) v)\<rparr>"
  by (simp add: binop_def scalar_def)










subsection \<open>The VGG feature extractors\<close>

lemma add_modules_eq:
  "add_modules seq f xs =
     (if \<forall>x\<in>set xs. x < length f then Inr (seq @ map ((!) f) xs) else Inl IndexError)"
  by (induction xs arbitrary: seq) auto

lemma map_nth_upt:
  "b \<le> length f \<Longrightarrow> map ((!) f) [a..<b] = drop a (take b f)"
  by (rule nth_equalityI) auto

lemma add_modules_upt:
  "add_modules [] f [a..<b] =
     (if a < b \<and> length f < b then Inl IndexError else Inr (drop a (take b f)))"
proof (cases "a < b")
  case True
  show ?thesis
  proof (cases "b \<le> length f")
    case True
    then show ?thesis by (simp add: add_modules_eq map_nth_upt)
  next
    case False
    with \<open>a < b\<close> have "\<not> (\<forall>x\<in>set [a..<b]. x < length f)"
      by (auto intro!: bexI [of _ "b - 1"])
    with False \<open>a < b\<close> show ?thesis by (simp add: add_modules_eq)
  qed
next
  case False
  then show ?thesis by (simp add: add_modules_eq)
qed

lemma take_append_drop_take:
  "a \<le> b \<Longrightarrow> take a f @ drop a (take b f) = take b f"
  by (metis append_take_drop_id min.absorb1 take_take)

lemma freeze_append: "freeze (xs @ ys) = freeze xs @ freeze ys"
  by (simp add: freeze_def)

lemma freeze_requires_grad:
  "p \<in> set (concat (map params (freeze ls))) \<Longrightarrow> \<not> requires_grad p"
  by (auto simp: freeze_def)

lemma freeze_pdata:
  "map pdata (concat (map params (freeze ls))) = map pdata (concat (map params ls))"
  by (induction ls) (simp_all add: freeze_def comp_def)

lemma freeze_run: "map run (freeze ls) = map run ls"
  by (simp add: freeze_def comp_def)

lemma Vgg16_init_eq:
  "Vgg16_init ex =
     (let f = models_vgg16 ex True in
      if length f < 23 then Inl IndexError
      else Inr \<lparr>to_relu_1_2 = freeze (take 4 f), to_relu_2_2 = freeze (drop 4 (take 9 f)),
             to_relu_3_3 = freeze (drop 9 (take 16 f)), to_relu_4_3 = freeze (drop 16 (take 23 f))\<rparr>)"
  unfolding Vgg16_init_def add_modules_upt by (simp add: Let_def)

lemma take23_split:
  "take 4 f @ drop 4 (take 9 f) @ drop 9 (take 16 f) @ drop 16 (take 23 f) = take 23 f"
proof -
  have a1: "take 4 f @ drop 4 (take 9 f) = take 9 f"
    by (rule take_append_drop_take) simp
  have a2: "take 9 f @ drop 9 (take 16 f) = take 16 f"
    by (rule take_append_drop_take) simp
  have a3: "take 16 f @ drop 16 (take 23 f) = take 23 f"
    by (rule take_append_drop_take) simp
  show ?thesis
    by (simp only: append_assoc [symmetric] a1 a2 a3)
qed

lemma Vgg16_init_layers:
  assumes "Vgg16_init ex = Inr n"
  shows "to_relu_1_2 n @ to_relu_2_2 n @ to_relu_3_3 n @ to_relu_4_3 n
      = freeze (take 23 (models_vgg16 ex True))"
proof -
  let ?f = "models_vgg16 ex True"
  from assms have n: "n = \<lparr>to_relu_1_2 = freeze (take 4 ?f), to_relu_2_2 = freeze (drop 4 (take 9 ?f)),
             to_relu_3_3 = freeze (drop 9 (take 16 ?f)), to_relu_4_3 = freeze (drop 16 (take 23 ?f))\<rparr>"
    by (simp add: Vgg16_init_eq Let_def split: if_splits)
  show ?thesis
    by (simp only: n Vgg16.select_convs freeze_append [symmetric] take23_split)
qed


lemma Vgg19_init_eq:
  "Vgg19_init ex rg =
     (let f = models_vgg19 ex True in
      if length f < 30 then Inl IndexError
      else if \<not> rg then
        Inr \<lparr>slice1 = freeze (take 2 f), slice2 = freeze (drop 2 (take 7 f)),
             slice3 = freeze (drop 7 (take 12 f)), slice4 = freeze (drop 12 (take 21 f)),
             slice5 = freeze (drop 21 (take 30 f))\<rparr>
      else
        Inr \<lparr>slice1 = take 2 f, slice2 = drop 2 (take 7 f),
             slice3 = drop 7 (take 12 f), slice4 = drop 12 (take 21 f),
             slice5 = drop 21 (take 30 f)\<rparr>)"
  unfolding Vgg19_init_def add_modules_upt by (simp add: Let_def)

lemma take30_split:
  "take 2 f @ drop 2 (take 7 f) @ drop 7 (take 12 f) @ drop 12 (take 21 f)
     @ drop 21 (take 30 f) = take 30 f"
proof -
  have a1: "take 2 f @ drop 2 (take 7 f) = take 7 f"
    by (rule take_append_drop_take) simp
  have a2: "take 7 f @ drop 7 (take 12 f) = take 12 f"
    by (rule take_append_drop_take) simp
  have a3: "take 12 f @ drop 12 (take 21 f) = take 21 f"
    by (rule take_append_drop_take) simp
  have a4: "take 21 f @ drop 21 (take 30 f) = take 30 f"
    by (rule take_append_drop_take) simp
  show ?thesis
    by (simp only: append_assoc [symmetric] a1 a2 a3 a4)
qed

lemma Vgg19_init_layers:
  assumes "Vgg19_init ex False = Inr n"
  shows "slice1 n @ slice2 n @ slice3 n @ slice4 n @ slice5 n
      = freeze (take 30 (models_vgg19 ex True))"
proof -
  let ?f = "models_vgg19 ex True"
  from assms have n: "n = \<lparr>slice1 = freeze (take 2 ?f), slice2 = freeze (drop 2 (take 7 ?f)),
             slice3 = freeze (drop 7 (take 12 ?f)), slice4 = freeze (drop 12 (take 21 ?f)),
             slice5 = freeze (drop 21 (take 30 ?f))\<rparr>"
    by (simp add: Vgg19_init_eq Let_def split: if_splits)
  show ?thesis
    by (simp only: n Vgg19.select_convs freeze_append [symmetric] take30_split)
qed

text \<open>
  C7. Both feature extractors are built from the pretrained network
  (\<^verbatim>\<open>pretrained=True\<close>): \<^verbatim>\<open>Vgg16\<close> holds its first 23 layers,
  \<^verbatim>\<open>Vgg19\<close> its first 30, with the data of their parameters and their forward
  functions as they are. After the construction of \<^verbatim>\<open>Vgg16\<close>, and of
  \<^verbatim>\<open>Vgg19\<close> with \<^verbatim>\<open>requires_grad=False\<close>, no parameter of the module has
  \<^verbatim>\<open>requires_grad\<close> set.
\<close>

theorem vgg_parameters_frozen:
  "(Vgg16_init ex = Inr n16 \<longrightarrow>
      (\<forall>p\<in>set (Vgg16_parameters n16). \<not> requires_grad p)
      \<and> map pdata (Vgg16_parameters n16)
          = map pdata (concat (map params (take 23 (models_vgg16 ex True))))
      \<and> map run (to_relu_1_2 n16 @ to_relu_2_2 n16 @ to_relu_3_3 n16 @ to_relu_4_3 n16)
          = map run (take 23 (models_vgg16 ex True)))
   \<and> (Vgg19_init ex False = Inr n19 \<longrightarrow>
      (\<forall>p\<in>set (Vgg19_parameters n19). \<not> requires_grad p)
      \<and> map pdata (Vgg19_parameters n19)
          = map pdata (concat (map params (take 30 (models_vgg19 ex True))))
      \<and> map run (slice1 n19 @ slice2 n19 @ slice3 n19 @ slice4 n19 @ slice5 n19)
          = map run (take 30 (models_vgg19 ex True)))"
proof (intro conjI impI)
  assume "Vgg16_init ex = Inr n16"
  then have l: "to_relu_1_2 n16 @ to_relu_2_2 n16 @ to_relu_3_3 n16 @ to_relu_4_3 n16
      = freeze (take 23 (models_vgg16 ex True))"
    by (rule Vgg16_init_layers)
  show "\<forall>p\<in>set (Vgg16_parameters n16). \<not> requires_grad p"
    unfolding Vgg16_parameters_def l using freeze_requires_grad by blast
  show "map pdata (Vgg16_parameters n16)
      = map pdata (concat (map params (take 23 (models_vgg16 ex True))))"
    unfolding Vgg16_parameters_def l by (rule freeze_pdata)
  show "map run (to_relu_1_2 n16 @ to_relu_2_2 n16 @ to_relu_3_3 n16 @ to_relu_4_3 n16)
      = map run (take 23 (models_vgg16 ex True))"
    unfolding l by (rule freeze_run)
next
  assume "Vgg19_init ex False = Inr n19"
  then have l: "slice1 n19 @ slice2 n19 @ slice3 n19 @ slice4 n19 @ slice5 n19
      = freeze (take 30 (models_vgg19 ex True))"
    by (rule Vgg19_init_layers)
  show "\<forall>p\<in>set (Vgg19_parameters n19). \<not> requires_grad p"
    unfolding Vgg19_parameters_def l using freeze_requires_grad by blast
  show "map pdata (Vgg19_parameters n19)
      = map pdata (concat (map params (take 30 (models_vgg19 ex True))))"
    unfolding Vgg19_parameters_def l by (rule freeze_pdata)
  show "map run (slice1 n19 @ slice2 n19 @ slice3 n19 @ slice4 n19 @ slice5 n19)
      = map run (take 30 (models_vgg19 ex True))"
    unfolding l by (rule freeze_run)
qed

theorem vgg_parameters_frozen_witness:
  "\<exists>n16 n19. Vgg16_init ex_ext = Inr n16 \<and> Vgg19_init ex_ext False = Inr n19
     \<and> (\<forall>p\<in>set (Vgg16_parameters n16). \<not> requires_grad p)
     \<and> length (Vgg16_parameters n16) = 23
     \<and> (\<forall>p\<in>set (Vgg19_parameters n19). \<not> requires_grad p)
     \<and> length (Vgg19_parameters n19) = 30"
proof -
  obtain n16 where a: "Vgg16_init ex_ext = Inr n16"
    by (simp add: Vgg16_init_eq ex_ext_def)
  obtain n19 where b: "Vgg19_init ex_ext False = Inr n19"
    by (simp add: Vgg19_init_eq ex_ext_def)
  have c: "length (concat (map params (replicate k ex_layer))) = k" for k
    by (induction k) (simp_all add: ex_layer_def)
  note t = vgg_parameters_frozen [of ex_ext n16 n19]
  from t a have e16: "map pdata (Vgg16_parameters n16)
      = map pdata (concat (map params (take 23 (models_vgg16 ex_ext True))))"
    by blast
  from t b have e19: "map pdata (Vgg19_parameters n19)
      = map pdata (concat (map params (take 30 (models_vgg19 ex_ext True))))"
    by blast
  have "length (Vgg16_parameters n16)
      = length (concat (map params (take 23 (models_vgg16 ex_ext True))))"
    using arg_cong [OF e16, of length] by (simp only: length_map)
  also have "\<dots> = 23"
    using c [of 23] by (simp add: ex_ext_def)
  finally have l16: "length (Vgg16_parameters n16) = 23" .
  have "length (Vgg19_parameters n19)
      = length (concat (map params (take 30 (models_vgg19 ex_ext True))))"
    using arg_cong [OF e19, of length] by (simp only: length_map)
  also have "\<dots> = 30"
    using c [of 30] by (simp add: ex_ext_def)
  finally have l19: "length (Vgg19_parameters n19) = 30" .
  from l16 l19 show ?thesis
    using t a b by blast
qed

subsection \<open>Criterion.__init__\<close>

lemma str_in_iff: "str_in needle hay \<longleftrightarrow> (\<exists>ps ss. hay = ps @ needle @ ss)"
proof -
  have "str_in needle hay \<longleftrightarrow> sublist needle hay"
    by (induction hay) (simp_all add: sublist_Cons_right)
  then show ?thesis by (simp add: sublist_def)
qed

text \<open>
  C5. \<^verbatim>\<open>Criterion.__init__\<close> selects the loss from \<^verbatim>\<open>loss_mode\<close>: a
  \<^verbatim>\<open>VGGLoss\<close> built for that name when \<^verbatim>\<open>'vgg'\<close> occurs in it, the LPIPS loss
  (on the VGG network) when it is \<^verbatim>\<open>'lpips'\<close>, \<^verbatim>\<open>masked_mse_loss\<close> when it is
  \<^verbatim>\<open>'mse'\<close>, \<^verbatim>\<open>masked_l1_loss\<close> when it is \<^verbatim>\<open>'l1'\<close>; for every other
  \<^verbatim>\<open>loss_mode\<close> it raises NotImplementedError.
\<close>

theorem Criterion_init_selects:
  "((\<exists>ps ss. args_loss_mode a = ps @ ''vgg'' @ ss) \<longrightarrow>
      Criterion_init ex a =
        (case VGGLoss_init ex (args_loss_mode a) of
           Inl e \<Rightarrow> Inl e
         | Inr v \<Rightarrow> Inr \<lparr>crop_ratio = args_boundary_crop_ratio a,
                        loss_mode = args_loss_mode a, loss_func = LF_VGGLoss v\<rparr>))
   \<and> (args_loss_mode a = ''lpips'' \<longrightarrow>
      Criterion_init ex a = Inr \<lparr>crop_ratio = args_boundary_crop_ratio a,
        loss_mode = ''lpips'', loss_func = LF_LPIPS ''vgg''\<rparr>)
   \<and> (args_loss_mode a = ''mse'' \<longrightarrow>
      Criterion_init ex a = Inr \<lparr>crop_ratio = args_boundary_crop_ratio a,
        loss_mode = ''mse'', loss_func = LF_masked_mse_loss\<rparr>)
   \<and> (args_loss_mode a = ''l1'' \<longrightarrow>
      Criterion_init ex a = Inr \<lparr>crop_ratio = args_boundary_crop_ratio a,
        loss_mode = ''l1'', loss_func = LF_masked_l1_loss\<rparr>)
   \<and> (\<not> (\<exists>ps ss. args_loss_mode a = ps @ ''vgg'' @ ss) \<and> args_loss_mode a \<noteq> ''lpips''
        \<and> args_loss_mode a \<noteq> ''mse'' \<and> args_loss_mode a \<noteq> ''l1'' \<longrightarrow>
      Criterion_init ex a = Inl NotImplementedError)"
proof -
  have v: "str_in ''vgg'' (args_loss_mode a) \<longleftrightarrow> (\<exists>ps ss. args_loss_mode a = ps @ ''vgg'' @ ss)"
    by (rule str_in_iff)
  have n: "\<not> str_in ''vgg'' ''lpips''" "\<not> str_in ''vgg'' ''mse''" "\<not> str_in ''vgg'' ''l1''"
    by simp_all
  show ?thesis
    unfolding v [symmetric] using n by (auto simp: Criterion_init_def)
qed

theorem Criterion_init_selects_witness:
  "(\<exists>v. Criterion_init ex_ext (ex_args ''vgg19'') =
        Inr \<lparr>crop_ratio = 0, loss_mode = ''vgg19'', loss_func = LF_VGGLoss v\<rparr>)
   \<and> Criterion_init ex_ext (ex_args ''lpips'') =
        Inr \<lparr>crop_ratio = 0, loss_mode = ''lpips'', loss_func = LF_LPIPS ''vgg''\<rparr>
   \<and> Criterion_init ex_ext (ex_args ''mse'') =
        Inr \<lparr>crop_ratio = 0, loss_mode = ''mse'', loss_func = LF_masked_mse_loss\<rparr>
   \<and> Criterion_init ex_ext (ex_args ''l1'') =
        Inr \<lparr>crop_ratio = 0, loss_mode = ''l1'', loss_func = LF_masked_l1_loss\<rparr>
   \<and> Criterion_init ex_ext (ex_args ''ssim'') = Inl NotImplementedError"
proof -
  have v: "\<exists>ps ss. args_loss_mode (ex_args ''vgg19'') = ps @ ''vgg'' @ ss"
    by (intro exI [of _ "[]"] exI [of _ "''19''"]) (simp add: ex_args_def)
  have i: "\<exists>v. VGGLoss_init ex_ext ''vgg19'' = Inr v"
    by (simp add: VGGLoss_init_def Vgg19_init_eq ex_ext_def)
  have n: "\<not> (\<exists>ps ss. args_loss_mode (ex_args ''ssim'') = ps @ ''vgg'' @ ss)"
    unfolding str_in_iff [symmetric] by (simp add: ex_args_def)
  show ?thesis
    using Criterion_init_selects [of "ex_args ''vgg19''" ex_ext] v i
      Criterion_init_selects [of "ex_args ''lpips''" ex_ext]
      Criterion_init_selects [of "ex_args ''mse''" ex_ext]
      Criterion_init_selects [of "ex_args ''l1''" ex_ext]
      Criterion_init_selects [of "ex_args ''ssim''" ex_ext] n
    by (auto simp: ex_args_def)
qed

subsection \<open>VGGLoss.forward\<close>

lemma torch_mean_scalar: "\<exists>v. torch_mean d = scalar v"
  unfolding torch_mean_def by blast

lemma masked_mean_scalar: "masked_mean d m = Inr l \<Longrightarrow> \<exists>v. l = scalar v"
  by (auto simp: masked_mean_def torch_sum_def Let_def split: if_splits sum.splits)

lemma masked_l1_loss_scalar: "masked_l1_loss ex a b m = Inr l \<Longrightarrow> \<exists>v. l = scalar v"
  using torch_mean_scalar
  by (auto simp: masked_l1_loss_def F_l1_loss_def dest: masked_mean_scalar
      split: option.splits sum.splits if_splits)

lemma masked_mse_loss_scalar: "masked_mse_loss a b m = Inr l \<Longrightarrow> \<exists>v. l = scalar v"
  using torch_mean_scalar
  by (auto simp: masked_mse_loss_def F_mse_loss_def dest: masked_mean_scalar
      split: option.splits sum.splits)

lemma iadd_scalar [simp]: "iadd (scalar a) (scalar b) = Inr (scalar (fadd a b))"
  by (simp add: iadd_def scalar_def binop_def)

lemma loss_loop_iff:
  "loss_loop ex (Some w) xv yv m is (scalar a) = Inr L \<longleftrightarrow>
     (\<exists>vs. list_all2 (\<lambda>i v. i < length w \<and> i < length xv \<and> i < length yv
               \<and> masked_l1_loss ex (xv ! i) (yv ! i) m = Inr (scalar v)) is vs
        \<and> L = scalar (foldl fadd a (map2 (\<lambda>i v. fscale (w ! i) v) is vs)))"
proof (induction "is" arbitrary: a)
  case Nil
  then show ?case by auto
next
  case (Cons i rest)
  show ?case
  proof (cases "i < length w \<and> i < length xv \<and> i < length yv")
    case False
    then show ?thesis by (auto simp: list_all2_Cons1)
  next
    case True
    show ?thesis
    proof (cases "masked_l1_loss ex (xv ! i) (yv ! i) m")
      case (Inl e)
      then show ?thesis using True by (auto simp: list_all2_Cons1)
    next
      case (Inr l)
      then obtain v where l: "l = scalar v" using masked_l1_loss_scalar by blast
      have sc: "scalar p = scalar q \<longleftrightarrow> p = q" for p q :: fl
        by (auto simp: scalar_def dest: fun_cong)
      show ?thesis
        using True Inr l Cons.IH [of "fadd a (fscale (w ! i) v)"]
        by (auto simp: list_all2_Cons1 sc)
    qed
  qed
qed


lemma map2_upt_nth:
  assumes "length w = n" and "length vs = n"
  shows "map2 (\<lambda>i v. f (w ! i) v) [0..<n] vs = map2 f w vs"
  using assms by (intro nth_equalityI) auto

lemma list_all2_upt:
  "list_all2 P [0..<n] vs \<longleftrightarrow> length vs = n \<and> (\<forall>i<n. P i (vs ! i))"
  by (auto simp: list_all2_conv_all_nth)

lemma VGGLoss_forward_iff:
  assumes net: "vgg self = Some net" and ws: "weights self = Some ws"
    and len: "\<forall>t f. vgg_forward net t = Inr f \<longrightarrow> length f = length ws"
  shows "VGGLoss_forward ex self x y mask_opt sz = Inr loss \<longleftrightarrow>
    (\<exists>x' y' m' fx fy l0 ls.
        preprocess x = Inr x' \<and> preprocess y = Inr y' \<and> resize_mask ex mask_opt sz = Inr m'
      \<and> vgg_forward net x' = Inr fx \<and> vgg_forward net y' = Inr fy
      \<and> masked_l1_loss ex x' y' m' = Inr (scalar l0)
      \<and> length ls = length ws
      \<and> (\<forall>i<length ws. masked_l1_loss ex (fx ! i) (fy ! i) m' = Inr (scalar (ls ! i)))
      \<and> loss = scalar (foldl fadd l0 (map2 fscale ws ls)))"
    (is "?L \<longleftrightarrow> ?R")
proof
  assume ?L
  then obtain x' y' m' fx fy l where
    p: "preprocess x = Inr x'" "preprocess y = Inr y'" "resize_mask ex mask_opt sz = Inr m'"
      "vgg_forward net x' = Inr fx" "vgg_forward net y' = Inr fy"
      "masked_l1_loss ex x' y' m' = Inr l"
    and lp: "loss_loop ex (Some ws) fx fy m' [0..<length fx] l = Inr loss"
    by (auto simp: VGGLoss_forward_def net ws split: sum.splits)
  from p(6) obtain l0 where l0: "l = scalar l0" using masked_l1_loss_scalar by blast
  have lx: "length fx = length ws" and ly: "length fy = length ws"
    using len p(4,5) by blast+
  from lp obtain vs where
    vs: "list_all2 (\<lambda>i v. i < length ws \<and> i < length fx \<and> i < length fy
               \<and> masked_l1_loss ex (fx ! i) (fy ! i) m' = Inr (scalar v)) [0..<length ws] vs"
    and L: "loss = scalar (foldl fadd l0 (map2 (\<lambda>i v. fscale (ws ! i) v) [0..<length ws] vs))"
    unfolding l0 lx loss_loop_iff by blast
  from vs have lv: "length vs = length ws"
    and each: "\<forall>i<length ws. masked_l1_loss ex (fx ! i) (fy ! i) m' = Inr (scalar (vs ! i))"
    by (simp_all add: list_all2_upt)
  have "loss = scalar (foldl fadd l0 (map2 fscale ws vs))"
    using L by (simp only: map2_upt_nth [OF refl lv])
  with p l0 lv each show ?R by blast
next
  assume ?R
  then obtain x' y' m' fx fy l0 ls where
    p: "preprocess x = Inr x'" "preprocess y = Inr y'" "resize_mask ex mask_opt sz = Inr m'"
      "vgg_forward net x' = Inr fx" "vgg_forward net y' = Inr fy"
      "masked_l1_loss ex x' y' m' = Inr (scalar l0)"
    and lv: "length ls = length ws"
    and each: "\<forall>i<length ws. masked_l1_loss ex (fx ! i) (fy ! i) m' = Inr (scalar (ls ! i))"
    and L: "loss = scalar (foldl fadd l0 (map2 fscale ws ls))"
    by blast
  have lx: "length fx = length ws" and ly: "length fy = length ws"
    using len p(4,5) by blast+
  have "list_all2 (\<lambda>i v. i < length ws \<and> i < length fx \<and> i < length fy
               \<and> masked_l1_loss ex (fx ! i) (fy ! i) m' = Inr (scalar v)) [0..<length ws] ls"
    using lv each lx ly by (simp add: list_all2_upt)
  moreover have "loss = scalar (foldl fadd l0 (map2 (\<lambda>i v. fscale (ws ! i) v) [0..<length ws] ls))"
    using L by (simp only: map2_upt_nth [OF refl lv])
  ultimately have "loss_loop ex (Some ws) fx fy m' [0..<length fx] (scalar l0) = Inr loss"
    unfolding lx loss_loop_iff by blast
  then show ?L
    by (simp add: VGGLoss_forward_def net ws p)
qed

lemma Vgg16_forward_length: "Vgg16_forward n t = Inr f \<Longrightarrow> length f = 4"
  by (auto simp: Vgg16_forward_def split: sum.splits)

lemma Vgg19_forward_length: "Vgg19_forward n t = Inr f \<Longrightarrow> length f = 5"
  by (auto simp: Vgg19_forward_def split: sum.splits)

text \<open>
  C1. For a \<^verbatim>\<open>VGGLoss\<close> built for \<^verbatim>\<open>'vgg19'\<close> or \<^verbatim>\<open>'vgg16'\<close>,
  \<^verbatim>\<open>forward\<close> returns a loss exactly when the two preprocessings, the resizing of the
  mask, the two runs of the network and all the masked L1 losses succeed; the loss is then
  the masked L1 loss between the preprocessed images plus the sum over the feature levels
  \<open>i\<close> of \<open>weights[i]\<close> times the masked L1 loss between the \<open>i\<close>-th feature maps,
  all with the resized mask, and \<^verbatim>\<open>self.weights\<close> is 1/32, 1/16, 1/8, 1/4, 1 for
  \<^verbatim>\<open>'vgg19'\<close> and 1/16, 1/8, 1/4, 1 for \<^verbatim>\<open>'vgg16'\<close>.
\<close>

theorem VGGLoss_forward_combines:
  assumes "VGGLoss_init ex model = Inr self"
    and "model = ''vgg19'' \<and> ws = [1 / 32, 1 / 16, 1 / 8, 1 / 4, 1]
       \<or> model = ''vgg16'' \<and> ws = [1 / 16, 1 / 8, 1 / 4, 1]"
  shows "VGGLoss_forward ex self x y mask_opt sz = Inr loss \<longleftrightarrow>
    (\<exists>x' y' m' net fx fy l0 ls.
        preprocess x = Inr x' \<and> preprocess y = Inr y' \<and> resize_mask ex mask_opt sz = Inr m'
      \<and> vgg self = Some net \<and> weights self = Some ws
      \<and> vgg_forward net x' = Inr fx \<and> vgg_forward net y' = Inr fy
      \<and> length fx = length ws \<and> length fy = length ws
      \<and> masked_l1_loss ex x' y' m' = Inr (scalar l0)
      \<and> length ls = length ws
      \<and> (\<forall>i<length ws. masked_l1_loss ex (fx ! i) (fy ! i) m' = Inr (scalar (ls ! i)))
      \<and> loss = scalar (foldl fadd l0 (map2 fscale ws ls)))"
proof -
  have "\<exists>net. vgg self = Some net \<and> weights self = Some ws
      \<and> (\<forall>t f. vgg_forward net t = Inr f \<longrightarrow> length f = length ws)"
  proof (cases "model = ''vgg19''")
    case True
    with assms have w: "ws = [1 / 32, 1 / 16, 1 / 8, 1 / 4, 1]" by simp
    from True assms(1) obtain n where "self = \<lparr>vgg = Some (Net19 n), weights = Some ws\<rparr>"
      unfolding w by (auto simp: VGGLoss_init_def split: sum.splits)
    then show ?thesis
      using w by (auto dest: Vgg19_forward_length)
  next
    case False
    with assms have m: "model = ''vgg16''" and w: "ws = [1 / 16, 1 / 8, 1 / 4, 1]" by simp_all
    from m assms(1) obtain n where "self = \<lparr>vgg = Some (Net16 n), weights = Some ws\<rparr>"
      unfolding w by (auto simp: VGGLoss_init_def split: sum.splits)
    then show ?thesis
      using w by (auto dest: Vgg16_forward_length)
  qed
  then obtain net where net: "vgg self = Some net" and w: "weights self = Some ws"
    and len: "\<forall>t f. vgg_forward net t = Inr f \<longrightarrow> length f = length ws"
    by blast
  note iff = VGGLoss_forward_iff [OF net w len, where ex = ex and x = x and y = y
      and mask_opt = mask_opt and sz = sz and loss = loss]
  show ?thesis (is "?L \<longleftrightarrow> ?R")
  proof
    assume ?L
    with iff obtain x' y' m' fx fy l0 ls where
      p: "preprocess x = Inr x'" "preprocess y = Inr y'" "resize_mask ex mask_opt sz = Inr m'"
        "vgg_forward net x' = Inr fx" "vgg_forward net y' = Inr fy"
        "masked_l1_loss ex x' y' m' = Inr (scalar l0)"
        "length ls = length ws"
        "\<forall>i<length ws. masked_l1_loss ex (fx ! i) (fy ! i) m' = Inr (scalar (ls ! i))"
        "loss = scalar (foldl fadd l0 (map2 fscale ws ls))"
      by blast
    have "length fx = length ws" "length fy = length ws"
      using len p(4,5) by blast+
    with p net w show ?R by blast
  next
    assume ?R
    then obtain x' y' m' fx fy l0 ls where
      p: "preprocess x = Inr x'" "preprocess y = Inr y'" "resize_mask ex mask_opt sz = Inr m'"
        "vgg_forward net x' = Inr fx" "vgg_forward net y' = Inr fy"
        "masked_l1_loss ex x' y' m' = Inr (scalar l0)"
        "length ls = length ws"
        "\<forall>i<length ws. masked_l1_loss ex (fx ! i) (fy ! i) m' = Inr (scalar (ls ! i))"
        "loss = scalar (foldl fadd l0 (map2 fscale ws ls))"
      using net by auto
    then show ?L using iff by blast
  qed
qed


subsection \<open>Criterion.forward\<close>

lemma loss_loop_scalar:
  "loss_loop ex ws xv yv m is (scalar a) = Inr L \<Longrightarrow> \<exists>v. L = scalar v"
proof (induction "is" arbitrary: a)
  case Nil
  then show ?case by auto
next
  case (Cons i rest)
  from Cons.prems obtain w l where w: "ws = Some w"
    and l: "masked_l1_loss ex (xv ! i) (yv ! i) m = Inr l"
    by (auto split: option.splits if_splits sum.splits)
  from l obtain v where v: "l = scalar v" using masked_l1_loss_scalar by blast
  from Cons.prems have "loss_loop ex ws xv yv m rest (scalar (fadd a (fscale (w ! i) v))) = Inr L"
    by (auto simp: w l v split: if_splits)
  then show ?case by (rule Cons.IH)
qed

lemma VGGLoss_forward_scalar:
  assumes "VGGLoss_forward ex self x y mask_opt sz = Inr loss"
  shows "\<exists>v. loss = scalar v"
proof -
  from assms obtain x' y' m' fx fy l where
    l: "masked_l1_loss ex x' y' m' = Inr l"
    and lp: "loss_loop ex (weights self) fx fy m' [0..<length fx] l = Inr loss"
    by (auto simp: VGGLoss_forward_def split: sum.splits option.splits)
  from l obtain l0 where "l = scalar l0" using masked_l1_loss_scalar by blast
  with lp show ?thesis using loss_loop_scalar by blast
qed

lemma numel_scalar [simp]: "numel (scalar v) = 1"
  by (simp add: numel_def scalar_def)

lemma shape_scalar [simp]: "shape (scalar v) = []"
  by (simp add: scalar_def)

lemma item_numel: "item t = Inr v \<Longrightarrow> numel t = 1"
  by (simp add: item_def split: if_splits)

lemma item_scalar [simp]: "item (scalar v) = Inr v"
  by (simp add: item_def scalar_def numel_def)

lemma binop_scalar_right_shape:
  "binop f t (scalar v) = Inr r \<Longrightarrow> shape r = shape t"
  by (auto simp: binop_scalar_right)

lemma Criterion_init_cases:
  assumes "Criterion_init ex a = Inr self"
  shows "crop_ratio self = args_boundary_crop_ratio a \<and> loss_mode self = args_loss_mode a
    \<and> ((\<exists>v. loss_func self = LF_VGGLoss v \<and> args_loss_mode a \<noteq> ''lpips'')
      \<or> (loss_func self = LF_LPIPS ''vgg'' \<and> args_loss_mode a = ''lpips'')
      \<or> (loss_func self = LF_masked_mse_loss \<and> args_loss_mode a = ''mse'')
      \<or> (loss_func self = LF_masked_l1_loss \<and> args_loss_mode a = ''l1''))"
proof -
  have n: "\<not> str_in ''vgg'' ''lpips''" by simp
  show ?thesis
    using assms n
    by (auto simp: Criterion_init_def split: if_splits sum.splits)
qed


lemma Criterion_forward_crop:
  assumes "fst (Criterion_forward ex self pred0 target0 mask_opt imv lg) = Inr loss"
  shows "\<exists>pred target. crop ex self pred0 = Inr pred \<and> crop ex self target0 = Inr target"
proof (cases "crop ex self pred0")
  case (Inl e)
  with assms show ?thesis by (simp add: Criterion_forward_def)
next
  case p: (Inr pred)
  show ?thesis
  proof (cases "crop ex self target0")
    case (Inl e)
    with assms p show ?thesis by (simp add: Criterion_forward_def)
  next
    case (Inr target)
    with p show ?thesis by simp
  qed
qed

lemma Criterion_forward_other:
  assumes "loss_mode self \<noteq> ''lpips''"
    and "crop ex self pred0 = Inr pred" and "crop ex self target0 = Inr target"
  shows "Criterion_forward ex self pred0 target0 mask_opt imv lg =
    (call3 ex (loss_func self) pred target mask_opt, lg)"
  using assms by (simp add: Criterion_forward_def)

lemma Criterion_forward_lpips_eq0:
  assumes "loss_mode self = ''lpips''"
    and "crop ex self pred0 = Inr pred" and "crop ex self target0 = Inr target"
    and "call2 ex (loss_func self) (tmap (\<lambda>v. 2 * v - 1) pred) (tmap (\<lambda>v. 2 * v - 1) target)
      = Inr lp"
    and "item lp = Inr v"
  shows "Criterion_forward ex self pred0 target0 mask_opt 0 lg =
       (case masked_l1_loss ex pred target mask_opt of
          Inl e \<Rightarrow> (Inl e, lg(''loss_perceptual'' \<mapsto> v))
        | Inr l1 \<Rightarrow>
            (case binop fadd lp l1 of
               Inl e \<Rightarrow> (Inl e, lg(''loss_perceptual'' \<mapsto> v))
             | Inr loss' \<Rightarrow>
                 (case item l1 of
                    Inl e \<Rightarrow> (Inl e, lg(''loss_perceptual'' \<mapsto> v))
                  | Inr v1 \<Rightarrow> (Inr loss', lg(''loss_perceptual'' \<mapsto> v, ''loss_l1'' \<mapsto> v1)))))"
  using assms by (simp add: Criterion_forward_def Let_def)

lemma Criterion_forward_lpips_eq1:
  assumes "loss_mode self = ''lpips''"
    and "crop ex self pred0 = Inr pred" and "crop ex self target0 = Inr target"
    and "call2 ex (loss_func self) (tmap (\<lambda>v. 2 * v - 1) pred) (tmap (\<lambda>v. 2 * v - 1) target)
      = Inr lp"
    and "item lp = Inr v"
    and "imv \<noteq> 0"
  shows "Criterion_forward ex self pred0 target0 mask_opt imv lg =
     (Inr lp, lg(''loss_perceptual'' \<mapsto> v))"
  using assms by (simp add: Criterion_forward_def Let_def)

lemma Criterion_forward_lpips_fail:
  assumes "loss_mode self = ''lpips''"
    and "crop ex self pred0 = Inr pred" and "crop ex self target0 = Inr target"
    and "fst (Criterion_forward ex self pred0 target0 mask_opt imv lg) = Inr loss"
  shows "\<exists>lp v. call2 ex (loss_func self) (tmap (\<lambda>v. 2 * v - 1) pred)
      (tmap (\<lambda>v. 2 * v - 1) target) = Inr lp \<and> item lp = Inr v"
proof (cases "call2 ex (loss_func self) (tmap (\<lambda>v. 2 * v - 1) pred)
      (tmap (\<lambda>v. 2 * v - 1) target)")
  case (Inl e)
  with assms show ?thesis by (simp add: Criterion_forward_def)
next
  case lp: (Inr lp)
  show ?thesis
  proof (cases "item lp")
    case (Inl e)
    with assms lp show ?thesis by (simp add: Criterion_forward_def)
  next
    case (Inr v)
    with lp show ?thesis by simp
  qed
qed


lemma item_iff: "(\<exists>v. item t = Inr v) \<longleftrightarrow> numel t = 1"
  by (simp add: item_def)

lemma Criterion_init_lpips:
  assumes "Criterion_init ex a = Inr self" and "args_loss_mode a = ''lpips''"
  shows "loss_mode self = ''lpips''" and "loss_func self = LF_LPIPS ''vgg''"
  using Criterion_init_cases [OF assms(1)] assms(2) by auto

lemma nested_result:
  assumes "fst (case m of Inl e \<Rightarrow> (Inl e, g)
      | Inr l1 \<Rightarrow> (case b l1 of Inl e \<Rightarrow> (Inl e, g)
          | Inr loss' \<Rightarrow> (case it l1 of Inl e \<Rightarrow> (Inl e, g)
              | Inr v1 \<Rightarrow> (Inr loss', h v1)))) = Inr loss"
  shows "\<exists>l1. m = Inr l1 \<and> b l1 = Inr loss"
  using assms by (auto split: sum.splits)

text \<open>
  C4. In \<^verbatim>\<open>'lpips'\<close> mode, with \<open>pred\<close> and \<open>target\<close> the two images after
  the optional cropping, \<^verbatim>\<open>forward\<close> returns a loss exactly when LPIPS succeeds on
  \<open>2 * pred - 1\<close> and \<open>2 * target - 1\<close> with a result of one element and, for
  \<^verbatim>\<open>is_multi_view == 0\<close>, the masked L1 loss on \<open>pred\<close> and \<open>target\<close> and
  its addition succeed. The loss is the LPIPS result plus that masked L1 loss when
  \<^verbatim>\<open>is_multi_view\<close> is 0, and the LPIPS result alone for every other value.
\<close>

theorem Criterion_forward_lpips:
  assumes init: "Criterion_init ex a = Inr self" and mode: "args_loss_mode a = ''lpips''"
    and cp: "crop ex self pred0 = Inr pred" and ct: "crop ex self target0 = Inr target"
  shows "fst (Criterion_forward ex self pred0 target0 mask_opt is_multi_view scalar_to_log)
      = Inr loss \<longleftrightarrow>
     (\<exists>lp. lpips_LPIPS ex ''vgg'' (tmap (\<lambda>v. 2 * v - 1) pred) (tmap (\<lambda>v. 2 * v - 1) target) None
           = Inr lp
        \<and> numel lp = 1
        \<and> (if is_multi_view = 0
           then \<exists>l1. masked_l1_loss ex pred target mask_opt = Inr l1 \<and> binop fadd lp l1 = Inr loss
           else loss = lp))"
    (is "?L \<longleftrightarrow> ?R")
proof -
  note lm = Criterion_init_lpips [OF init mode]
  have call: "call2 ex (loss_func self) p t = lpips_LPIPS ex ''vgg'' p t None" for p t
    by (simp add: lm(2))
  show ?thesis
  proof
    assume l: ?L
    from Criterion_forward_lpips_fail [OF lm(1) cp ct l] obtain lp v where
      lp: "call2 ex (loss_func self) (tmap (\<lambda>v. 2 * v - 1) pred)
        (tmap (\<lambda>v. 2 * v - 1) target) = Inr lp" and v: "item lp = Inr v"
      by blast
    have n: "numel lp = 1" using v by (rule item_numel)
    have "if is_multi_view = 0
        then \<exists>l1. masked_l1_loss ex pred target mask_opt = Inr l1 \<and> binop fadd lp l1 = Inr loss
        else loss = lp"
    proof (cases "is_multi_view = 0")
      case True
      have "\<exists>l1. masked_l1_loss ex pred target mask_opt = Inr l1 \<and> binop fadd lp l1 = Inr loss"
        using l unfolding True Criterion_forward_lpips_eq0 [OF lm(1) cp ct lp v]
        by (rule nested_result)
      with True show ?thesis by simp
    next
      case False
      with l show ?thesis
        unfolding Criterion_forward_lpips_eq1 [OF lm(1) cp ct lp v False] by simp
    qed
    with lp n show ?R unfolding call by (intro exI [of _ lp] conjI)
  next
    assume r0: ?R
    from r0 obtain lp where
      c: "lpips_LPIPS ex ''vgg'' (tmap (\<lambda>v. 2 * v - 1) pred)
            (tmap (\<lambda>v. 2 * v - 1) target) None = Inr lp
        \<and> numel lp = 1
        \<and> (if is_multi_view = 0
           then \<exists>l1. masked_l1_loss ex pred target mask_opt = Inr l1 \<and> binop fadd lp l1 = Inr loss
           else loss = lp)" ..
    from c have lp0: "lpips_LPIPS ex ''vgg'' (tmap (\<lambda>v. 2 * v - 1) pred)
        (tmap (\<lambda>v. 2 * v - 1) target) None = Inr lp"
      by (rule conjunct1)
    from c have n: "numel lp = 1"
      by (rule conjunct2 [THEN conjunct1])
    from c have r: "if is_multi_view = 0
        then \<exists>l1. masked_l1_loss ex pred target mask_opt = Inr l1 \<and> binop fadd lp l1 = Inr loss
        else loss = lp"
      by (rule conjunct2 [THEN conjunct2])
    have lp: "call2 ex (loss_func self) (tmap (\<lambda>v. 2 * v - 1) pred)
        (tmap (\<lambda>v. 2 * v - 1) target) = Inr lp"
      by (simp only: call lp0)
    have "\<exists>v. item lp = Inr v" using n by (simp only: item_iff)
    then obtain v where v: "item lp = Inr v" ..
    show ?L
    proof (cases "is_multi_view = 0")
      case True
      from r have "\<exists>l1. masked_l1_loss ex pred target mask_opt = Inr l1
          \<and> binop fadd lp l1 = Inr loss"
        by (simp only: True if_True)
      then obtain l1 where l1: "masked_l1_loss ex pred target mask_opt = Inr l1"
        and b: "binop fadd lp l1 = Inr loss" by (elim exE conjE)
      from l1 obtain w where w: "l1 = scalar w" using masked_l1_loss_scalar by blast
      have i: "item l1 = Inr w" unfolding w by (rule item_scalar)
      show ?thesis
        unfolding True Criterion_forward_lpips_eq0 [OF lm(1) cp ct lp v]
        by (simp only: l1 b i sum.case fst_conv)
    next
      case False
      from r have "loss = lp" by (simp only: False if_False)
      then show ?thesis
        unfolding Criterion_forward_lpips_eq1 [OF lm(1) cp ct lp v False] by simp
    qed
  qed
qed

lemma Criterion_forward_numel:
  assumes init: "Criterion_init ex a = Inr self"
    and ret: "fst (Criterion_forward ex self pred0 target0 mask_opt is_multi_view scalar_to_log)
      = Inr loss"
  shows "numel loss = 1 \<and> (args_loss_mode a \<noteq> ''lpips'' \<longrightarrow> shape loss = [])"
proof -
  note c = Criterion_init_cases [OF init]
  from Criterion_forward_crop [OF ret] obtain pred target where
    cp: "crop ex self pred0 = Inr pred" and ct: "crop ex self target0 = Inr target"
    by blast
  show ?thesis
  proof (cases "args_loss_mode a = ''lpips''")
    case True
    with c have lm: "loss_mode self = ''lpips''" by simp
    from Criterion_forward_lpips_fail [OF lm cp ct ret] obtain lp v where
      lp: "call2 ex (loss_func self) (tmap (\<lambda>v. 2 * v - 1) pred)
        (tmap (\<lambda>v. 2 * v - 1) target) = Inr lp" and v: "item lp = Inr v"
      by blast
    have n: "numel lp = 1" using v by (rule item_numel)
    have "numel loss = 1"
    proof (cases "is_multi_view = 0")
      case True
      have "\<exists>l1. masked_l1_loss ex pred target mask_opt = Inr l1 \<and> binop fadd lp l1 = Inr loss"
        using ret unfolding True Criterion_forward_lpips_eq0 [OF lm cp ct lp v]
        by (rule nested_result)
      then obtain l1 where l1: "masked_l1_loss ex pred target mask_opt = Inr l1"
        and b: "binop fadd lp l1 = Inr loss"
        by blast
      from l1 obtain w where w: "l1 = scalar w" using masked_l1_loss_scalar by blast
      have "shape loss = shape lp"
        using b unfolding w by (rule binop_scalar_right_shape)
      with n show ?thesis by (simp add: numel_def)
    next
      case False
      with ret have "loss = lp"
        unfolding Criterion_forward_lpips_eq1 [OF lm cp ct lp v False] by simp
      with n show ?thesis by simp
    qed
    with True show ?thesis by simp
  next
    case False
    with c have lm: "loss_mode self \<noteq> ''lpips''" by simp
    from ret have r: "call3 ex (loss_func self) pred target mask_opt = Inr loss"
      unfolding Criterion_forward_other [OF lm cp ct] by simp
    from c False consider v where "loss_func self = LF_VGGLoss v"
      | "loss_func self = LF_masked_mse_loss" | "loss_func self = LF_masked_l1_loss"
      by blast
    then have "\<exists>w. loss = scalar w"
    proof cases
      case 1
      with r show ?thesis using VGGLoss_forward_scalar by simp
    next
      case 2
      with r show ?thesis using masked_mse_loss_scalar by simp
    next
      case 3
      with r show ?thesis using masked_l1_loss_scalar by simp
    qed
    then show ?thesis by auto
  qed
qed

lemma Criterion_forward_pixelwise:
  assumes init: "Criterion_init ex a = Inr self"
    and mode: "args_loss_mode a = ''mse'' \<or> args_loss_mode a = ''l1''"
    and cr: "args_boundary_crop_ratio a \<le> 0"
    and sh: "shape target0 = shape pred0"
  shows "\<exists>v. fst (Criterion_forward ex self pred0 target0 None is_multi_view scalar_to_log)
    = Inr (scalar v)"
proof -
  note c = Criterion_init_cases [OF init]
  from c cr have cp: "crop ex self pred0 = Inr pred0" and ct: "crop ex self target0 = Inr target0"
    by (simp_all add: crop_def)
  from c mode have lm: "loss_mode self \<noteq> ''lpips''" by auto
  from init mode
  have "loss_func self = LF_masked_mse_loss \<or> loss_func self = LF_masked_l1_loss"
    by (auto simp: Criterion_init_def)
  then have "\<exists>v. call3 ex (loss_func self) pred0 target0 None = Inr (scalar v)"
  proof
    assume "loss_func self = LF_masked_mse_loss"
    then show ?thesis by (auto simp: masked_mse_loss_None [OF sh])
  next
    assume "loss_func self = LF_masked_l1_loss"
    then show ?thesis by (auto simp: masked_l1_loss_None [OF sh])
  qed
  then show ?thesis
    unfolding Criterion_forward_other [OF lm cp ct] by simp
qed

text \<open>
  C6. Every loss that \<^verbatim>\<open>Criterion.forward\<close> returns is a single number: a tensor of
  exactly one element, and outside the \<^verbatim>\<open>'lpips'\<close> mode a zero-dimensional one. In
  the modes \<^verbatim>\<open>'mse'\<close> and \<^verbatim>\<open>'l1'\<close>, without cropping and without a mask, it
  does return one for every prediction and target of one shape, whatever the batch size.
\<close>

theorem Criterion_forward_scalar:
  assumes init: "Criterion_init ex a = Inr self"
  shows "(fst (Criterion_forward ex self pred0 target0 mask_opt is_multi_view scalar_to_log)
        = Inr loss \<longrightarrow>
      numel loss = 1 \<and> (args_loss_mode a \<noteq> ''lpips'' \<longrightarrow> shape loss = []))
    \<and> ((args_loss_mode a = ''mse'' \<or> args_loss_mode a = ''l1'')
        \<and> args_boundary_crop_ratio a \<le> 0 \<and> shape target0 = shape pred0 \<longrightarrow>
      (\<exists>v. fst (Criterion_forward ex self pred0 target0 None is_multi_view scalar_to_log)
        = Inr (scalar v)))"
proof (intro conjI impI)
  assume "fst (Criterion_forward ex self pred0 target0 mask_opt is_multi_view scalar_to_log)
      = Inr loss"
  with init have "numel loss = 1 \<and> (args_loss_mode a \<noteq> ''lpips'' \<longrightarrow> shape loss = [])"
    by (rule Criterion_forward_numel)
  then show "numel loss = 1" and "args_loss_mode a \<noteq> ''lpips'' \<Longrightarrow> shape loss = []"
    by simp_all
next
  assume "(args_loss_mode a = ''mse'' \<or> args_loss_mode a = ''l1'')
      \<and> args_boundary_crop_ratio a \<le> 0 \<and> shape target0 = shape pred0"
  then show "\<exists>v. fst (Criterion_forward ex self pred0 target0 None is_multi_view scalar_to_log)
      = Inr (scalar v)"
    using Criterion_forward_pixelwise [OF init] by blast
qed

lemma nested_result_full:
  assumes "(case m of Inl e \<Rightarrow> (Inl e, g)
      | Inr l1 \<Rightarrow> (case b l1 of Inl e \<Rightarrow> (Inl e, g)
          | Inr loss' \<Rightarrow> (case it l1 of Inl e \<Rightarrow> (Inl e, g)
              | Inr v1 \<Rightarrow> (Inr loss', h v1)))) = (Inr loss, lg')"
  shows "\<exists>l1 v1. m = Inr l1 \<and> it l1 = Inr v1 \<and> lg' = h v1"
  using assms by (auto split: sum.splits)

lemma Criterion_forward_frame:
  assumes "loss_mode self \<noteq> ''lpips''"
  shows "snd (Criterion_forward ex self pred0 target0 mask_opt imv lg) = lg"
  using assms by (simp add: Criterion_forward_def split: sum.splits)

text \<open>
  C8. Outside the \<^verbatim>\<open>'lpips'\<close> mode \<^verbatim>\<open>forward\<close> leaves
  \<^verbatim>\<open>scalar_to_log\<close> as it was, also when it raises. In \<^verbatim>\<open>'lpips'\<close> mode the
  dictionary it returns is the one it was given with \<^verbatim>\<open>'loss_perceptual'\<close> set to the
  LPIPS value and, exactly when \<^verbatim>\<open>is_multi_view\<close> is 0, \<^verbatim>\<open>'loss_l1'\<close> set to
  the masked L1 value; nothing else changes.
\<close>

theorem Criterion_forward_log:
  assumes init: "Criterion_init ex a = Inr self"
  shows "(args_loss_mode a \<noteq> ''lpips'' \<longrightarrow>
        snd (Criterion_forward ex self pred0 target0 mask_opt is_multi_view scalar_to_log)
          = scalar_to_log)
    \<and> (args_loss_mode a = ''lpips'' \<longrightarrow>
        Criterion_forward ex self pred0 target0 mask_opt is_multi_view scalar_to_log
          = (Inr loss, log') \<longrightarrow>
        (\<exists>pred target lp v.
            crop ex self pred0 = Inr pred \<and> crop ex self target0 = Inr target
          \<and> lpips_LPIPS ex ''vgg'' (tmap (\<lambda>v. 2 * v - 1) pred)
                (tmap (\<lambda>v. 2 * v - 1) target) None = Inr lp
          \<and> item lp = Inr v
          \<and> (if is_multi_view = 0
             then \<exists>l1 v1. masked_l1_loss ex pred target mask_opt = Inr l1 \<and> item l1 = Inr v1
                  \<and> log' = scalar_to_log(''loss_perceptual'' \<mapsto> v, ''loss_l1'' \<mapsto> v1)
             else log' = scalar_to_log(''loss_perceptual'' \<mapsto> v))))"
proof (intro conjI impI)
  assume "args_loss_mode a \<noteq> ''lpips''"
  with Criterion_init_cases [OF init] have "loss_mode self \<noteq> ''lpips''" by simp
  then show "snd (Criterion_forward ex self pred0 target0 mask_opt is_multi_view scalar_to_log)
      = scalar_to_log"
    by (rule Criterion_forward_frame)
next
  assume mode: "args_loss_mode a = ''lpips''"
    and ret: "Criterion_forward ex self pred0 target0 mask_opt is_multi_view scalar_to_log
      = (Inr loss, log')"
  note lm = Criterion_init_lpips [OF init mode]
  have call: "call2 ex (loss_func self) p t = lpips_LPIPS ex ''vgg'' p t None" for p t
    by (simp add: lm(2))
  from ret have f: "fst (Criterion_forward ex self pred0 target0 mask_opt is_multi_view
      scalar_to_log) = Inr loss"
    by simp
  from Criterion_forward_crop [OF f] obtain pred target where
    cp: "crop ex self pred0 = Inr pred" and ct: "crop ex self target0 = Inr target"
    by blast
  from Criterion_forward_lpips_fail [OF lm(1) cp ct f] obtain lp v where
    lp: "call2 ex (loss_func self) (tmap (\<lambda>v. 2 * v - 1) pred)
      (tmap (\<lambda>v. 2 * v - 1) target) = Inr lp" and v: "item lp = Inr v"
    by blast
  have lp0: "lpips_LPIPS ex ''vgg'' (tmap (\<lambda>v. 2 * v - 1) pred)
      (tmap (\<lambda>v. 2 * v - 1) target) None = Inr lp"
    using lp by (simp only: call)
  have "if is_multi_view = 0
      then \<exists>l1 v1. masked_l1_loss ex pred target mask_opt = Inr l1 \<and> item l1 = Inr v1
           \<and> log' = scalar_to_log(''loss_perceptual'' \<mapsto> v, ''loss_l1'' \<mapsto> v1)
      else log' = scalar_to_log(''loss_perceptual'' \<mapsto> v)"
  proof (cases "is_multi_view = 0")
    case True
    have "\<exists>l1 v1. masked_l1_loss ex pred target mask_opt = Inr l1 \<and> item l1 = Inr v1
        \<and> log' = scalar_to_log(''loss_perceptual'' \<mapsto> v, ''loss_l1'' \<mapsto> v1)"
      using ret unfolding True Criterion_forward_lpips_eq0 [OF lm(1) cp ct lp v]
      by (rule nested_result_full)
    with True show ?thesis by simp
  next
    case False
    from ret have "log' = scalar_to_log(''loss_perceptual'' \<mapsto> v)"
      unfolding Criterion_forward_lpips_eq1 [OF lm(1) cp ct lp v False] by simp
    with False show ?thesis by simp
  qed
  with cp ct lp0 v show "\<exists>pred target lp v.
            crop ex self pred0 = Inr pred \<and> crop ex self target0 = Inr target
          \<and> lpips_LPIPS ex ''vgg'' (tmap (\<lambda>v. 2 * v - 1) pred)
                (tmap (\<lambda>v. 2 * v - 1) target) None = Inr lp
          \<and> item lp = Inr v
          \<and> (if is_multi_view = 0
             then \<exists>l1 v1. masked_l1_loss ex pred target mask_opt = Inr l1 \<and> item l1 = Inr v1
                  \<and> log' = scalar_to_log(''loss_perceptual'' \<mapsto> v, ''loss_l1'' \<mapsto> v1)
             else log' = scalar_to_log(''loss_perceptual'' \<mapsto> v))"
    by (intro exI conjI)
qed

subsection \<open>Runs on concrete inputs\<close>

text \<open>
  The stand-in network returns its input at every level, so the five feature losses of
  \<^verbatim>\<open>VGGLoss.forward\<close> on \<open>ex_x\<close> and \<open>ex_y\<close> all equal the loss between
  the preprocessed images, 1/3, and the total is \<open>1/3 * (1 + 1/32 + 1/16 + 1/8 + 1/4 + 1)\<close>.
\<close>

lemma Sequential_forward_id:
  "\<forall>l\<in>set ls. run l = Inr \<Longrightarrow> Sequential_forward ls x = Inr x"
  by (induction ls arbitrary: x) auto

lemma ex_layers_id:
  "\<forall>l\<in>set (freeze (drop a (take b (replicate n ex_layer)))). run l = Inr"
proof -
  have "set (drop a (take b (replicate n ex_layer))) \<subseteq> {ex_layer}"
    using set_drop_subset [of a "take b (replicate n ex_layer)"]
      set_take_subset [of b "replicate n ex_layer"]
    by auto
  then show ?thesis
    by (auto simp: freeze_def ex_layer_def)
qed

lemma ex_Vgg19_forward:
  assumes "Vgg19_init ex_ext False = Inr n"
  shows "Vgg19_forward n x = Inr [x, x, x, x, x]"
proof -
  have d: "take 2 f = drop 0 (take 2 f)" for f :: "layer list" by simp
  from assms have n: "n = \<lparr>slice1 = freeze (drop 0 (take 2 (replicate 37 ex_layer))),
      slice2 = freeze (drop 2 (take 7 (replicate 37 ex_layer))),
      slice3 = freeze (drop 7 (take 12 (replicate 37 ex_layer))),
      slice4 = freeze (drop 12 (take 21 (replicate 37 ex_layer))),
      slice5 = freeze (drop 21 (take 30 (replicate 37 ex_layer)))\<rparr>"
    by (simp add: Vgg19_init_eq ex_ext_def)
  show ?thesis
    unfolding n Vgg19_forward_def
    by (simp only: Vgg19.select_convs Sequential_forward_id [OF ex_layers_id] sum.case)
qed

lemma ex_preprocess_x:
  "\<exists>x'. preprocess ex_x = Inr x' \<and> shape x' = [1, 3, 1, 1]
     \<and> elems x' = [1, 0, 0]"
  by (simp add: preprocess_def binop_def broadcast_shapes_def channel_vec_def ex_x_def
      tensor_of_def ravel_def bidx_def elems_def upt_conv_Cons)

lemma ex_preprocess_y:
  "\<exists>y'. preprocess ex_y = Inr y' \<and> shape y' = [1, 3, 1, 1]
     \<and> elems y' = [0, 0, 0]"
  by (simp add: preprocess_def binop_def broadcast_shapes_def channel_vec_def ex_y_def
      tensor_of_def ravel_def bidx_def elems_def upt_conv_Cons)

theorem VGGLoss_forward_combines_witness:
  "\<exists>self. VGGLoss_init ex_ext ''vgg19'' = Inr self
     \<and> VGGLoss_forward ex_ext self ex_x ex_y None 224 = Inr (scalar (Fin (79 / 96)))"
proof -
  obtain n where n: "Vgg19_init ex_ext False = Inr n"
    by (simp add: Vgg19_init_eq ex_ext_def)
  let ?ws = "[1 / 32, 1 / 16, 1 / 8, 1 / 4, 1 :: real]"
  let ?self = "\<lparr>vgg = Some (Net19 n), weights = Some ?ws\<rparr>"
  have init: "VGGLoss_init ex_ext ''vgg19'' = Inr ?self"
    by (simp add: VGGLoss_init_def n)
  from ex_preprocess_x obtain x' where x': "preprocess ex_x = Inr x'"
    and sx: "shape x' = [1, 3, 1, 1]"
    and ex: "elems x' = [1, 0, 0]"
    by blast
  from ex_preprocess_y obtain y' where y': "preprocess ex_y = Inr y'"
    and sy: "shape y' = [1, 3, 1, 1]"
    and ey: "elems y' = [0, 0, 0]"
    by blast
  have m: "resize_mask ex_ext None 224 = Inr None"
    by (simp add: resize_mask_def)
  have fx: "vgg_forward (Net19 n) x' = Inr (replicate 5 x')"
    by (simp add: ex_Vgg19_forward [OF n] numeral_eq_Suc)
  have fy: "vgg_forward (Net19 n) y' = Inr (replicate 5 y')"
    by (simp add: ex_Vgg19_forward [OF n] numeral_eq_Suc)
  have "(\<Sum>idx\<leftarrow>indices (shape x'). \<bar>elem x' idx - elem y' idx\<bar>)
      = sum_list (map2 (\<lambda>a b. \<bar>a - b\<bar>) (elems x') (elems y'))"
    by (simp only: elems_def sx sy map2_map_map)
  also have "\<dots> = 1"
    by (simp add: ex ey)
  finally have l: "masked_l1_loss ex_ext x' y' None = Inr (scalar (Fin (1 / 3)))"
    using masked_l1_loss_None [of y' x' ex_ext]
    by (simp add: sx sy fdiv_def)
  have h: "''vgg19'' = ''vgg19'' \<and> ?ws = [1 / 32, 1 / 16, 1 / 8, 1 / 4, 1]
      \<or> ''vgg19'' = ''vgg16'' \<and> ?ws = [1 / 16, 1 / 8, 1 / 4, 1]"
    by simp
  have "VGGLoss_forward ex_ext ?self ex_x ex_y None 224
      = Inr (scalar (foldl fadd (Fin (1 / 3)) (map2 fscale ?ws (replicate 5 (Fin (1 / 3))))))"
    unfolding VGGLoss_forward_combines [OF init h]
    using x' y' m fx fy l
    by (intro exI [of _ x'] exI [of _ y'] exI [of _ None] exI [of _ "Net19 n"]
        exI [of _ "replicate 5 x'"] exI [of _ "replicate 5 y'"] exI [of _ "Fin (1 / 3)"]
        exI [of _ "replicate 5 (Fin (1 / 3))"]) simp
  then have "VGGLoss_forward ex_ext ?self ex_x ex_y None 224 = Inr (scalar (Fin (79 / 96)))"
    by (simp add: numeral_eq_Suc)
  with init show ?thesis by blast
qed


lemma ex_l1: "masked_l1_loss ex_ext ex_pred ex_gt None = Inr (scalar (Fin 2))"
proof -
  have sh: "shape ex_gt = shape ex_pred"
    by (simp add: ex_gt_def ex_pred_def tensor_of_def)
  show ?thesis
    unfolding masked_l1_loss_None [OF sh]
    by (simp add: ex_pred_def ex_gt_def tensor_of_def ravel_def fdiv_def upt_conv_Cons)
qed

lemma ex_lpips_call:
  "\<exists>lp. call2 ex_ext (LF_LPIPS ''vgg'') (tmap (\<lambda>v. 2 * v - 1) ex_pred)
       (tmap (\<lambda>v. 2 * v - 1) ex_gt) = Inr lp
     \<and> shape lp = [1, 1, 1, 1] \<and> item lp = Inr (Fin 2)
     \<and> elem lp [0, 0, 0, 0] = Fin 2"
  by (simp add: ex_ext_def ex_lpips_def tmap_def ex_pred_def ex_gt_def tensor_of_def ravel_def
      item_def numel_def)

lemma ex_forward_lpips:
  "\<exists>loss. Criterion_forward ex_ext
       \<lparr>crop_ratio = 0, loss_mode = ''lpips'', loss_func = LF_LPIPS ''vgg''\<rparr>
       ex_pred ex_gt None 0 lg
     = (Inr loss, lg(''loss_perceptual'' \<mapsto> Fin 2, ''loss_l1'' \<mapsto> Fin 2))
     \<and> item loss = Inr (Fin 4)"
proof -
  let ?c = "\<lparr>crop_ratio = 0, loss_mode = ''lpips'', loss_func = LF_LPIPS ''vgg''\<rparr>"
  from ex_lpips_call obtain lp where
    lp: "call2 ex_ext (loss_func ?c) (tmap (\<lambda>v. 2 * v - 1) ex_pred)
       (tmap (\<lambda>v. 2 * v - 1) ex_gt) = Inr lp"
    and sh: "shape lp = [1, 1, 1, 1]" and it: "item lp = Inr (Fin 2)"
    and el: "elem lp [0, 0, 0, 0] = Fin 2"
    by auto
  have m: "loss_mode ?c = ''lpips''" by simp
  have cp: "crop ex_ext ?c ex_pred = Inr ex_pred" by (simp add: crop_def)
  have ct: "crop ex_ext ?c ex_gt = Inr ex_gt" by (simp add: crop_def)
  define loss where
    "loss = \<lparr>shape = shape lp, elem = (\<lambda>idx. fadd (elem lp (bidx (shape lp) idx)) (Fin 2))\<rparr>"
  have b: "binop fadd lp (scalar (Fin 2)) = Inr loss"
    by (simp add: binop_scalar_right loss_def)
  have eq: "Criterion_forward ex_ext ?c ex_pred ex_gt None 0 lg
      = (Inr loss, lg(''loss_perceptual'' \<mapsto> Fin 2, ''loss_l1'' \<mapsto> Fin 2))"
    unfolding Criterion_forward_lpips_eq0 [OF m cp ct lp it]
    by (simp add: ex_l1 b)
  have "item loss = Inr (Fin 4)"
    by (simp add: item_def numel_def loss_def sh el bidx_def)
  with eq show ?thesis by blast
qed

lemma ex_forward_lpips_multi:
  "\<exists>loss. Criterion_forward ex_ext
       \<lparr>crop_ratio = 0, loss_mode = ''lpips'', loss_func = LF_LPIPS ''vgg''\<rparr>
       ex_pred ex_gt None 1 lg
     = (Inr loss, lg(''loss_perceptual'' \<mapsto> Fin 2))
     \<and> item loss = Inr (Fin 2)"
proof -
  let ?c = "\<lparr>crop_ratio = 0, loss_mode = ''lpips'', loss_func = LF_LPIPS ''vgg''\<rparr>"
  from ex_lpips_call obtain lp where
    lp: "call2 ex_ext (loss_func ?c) (tmap (\<lambda>v. 2 * v - 1) ex_pred)
       (tmap (\<lambda>v. 2 * v - 1) ex_gt) = Inr lp"
    and it: "item lp = Inr (Fin 2)"
    by auto
  have m: "loss_mode ?c = ''lpips''" by simp
  have cp: "crop ex_ext ?c ex_pred = Inr ex_pred" by (simp add: crop_def)
  have ct: "crop ex_ext ?c ex_gt = Inr ex_gt" by (simp add: crop_def)
  have n: "(1::int) \<noteq> 0" by simp
  show ?thesis
    unfolding Criterion_forward_lpips_eq1 [OF m cp ct lp it n]
    by (simp add: it)
qed

lemma ex_init_lpips:
  "Criterion_init ex_ext (ex_args ''lpips'')
     = Inr \<lparr>crop_ratio = 0, loss_mode = ''lpips'', loss_func = LF_LPIPS ''vgg''\<rparr>"
  by (simp add: Criterion_init_def ex_args_def)

lemma ex_init_mse:
  "Criterion_init ex_ext (ex_args ''mse'')
     = Inr \<lparr>crop_ratio = 0, loss_mode = ''mse'', loss_func = LF_masked_mse_loss\<rparr>"
  by (simp add: Criterion_init_def ex_args_def)

lemma ex_forward_mse:
  "Criterion_forward ex_ext \<lparr>crop_ratio = 0, loss_mode = ''mse'', loss_func = LF_masked_mse_loss\<rparr>
     ex_pred ex_gt None imv lg = (Inr (scalar (Fin (9 / 2))), lg)"
proof -
  have sh: "shape ex_gt = shape ex_pred"
    by (simp add: ex_gt_def ex_pred_def tensor_of_def)
  have "masked_mse_loss ex_pred ex_gt None = Inr (scalar (Fin (9 / 2)))"
    unfolding masked_mse_loss_None [OF sh]
    by (simp add: ex_pred_def ex_gt_def tensor_of_def ravel_def fdiv_def upt_conv_Cons)
  then show ?thesis
    by (simp add: Criterion_forward_def crop_def)
qed


theorem Criterion_forward_lpips_witness:
  "\<exists>self loss lp l1.
      Criterion_init ex_ext (ex_args ''lpips'') = Inr self
    \<and> fst (Criterion_forward ex_ext self ex_pred ex_gt None 0 Map.empty) = Inr loss
    \<and> lpips_LPIPS ex_ext ''vgg'' (tmap (\<lambda>v. 2 * v - 1) ex_pred)
          (tmap (\<lambda>v. 2 * v - 1) ex_gt) None = Inr lp
    \<and> numel lp = 1
    \<and> masked_l1_loss ex_ext ex_pred ex_gt None = Inr l1
    \<and> binop fadd lp l1 = Inr loss
    \<and> item loss = Inr (Fin 4)
    \<and> fst (Criterion_forward ex_ext self ex_pred ex_gt None 1 Map.empty) = Inr lp"
proof -
  let ?c = "\<lparr>crop_ratio = 0, loss_mode = ''lpips'', loss_func = LF_LPIPS ''vgg''\<rparr>"
  have mode: "args_loss_mode (ex_args ''lpips'') = ''lpips''"
    by (simp add: ex_args_def)
  have cp: "crop ex_ext ?c ex_pred = Inr ex_pred" by (simp add: crop_def)
  have ct: "crop ex_ext ?c ex_gt = Inr ex_gt" by (simp add: crop_def)
  note t = Criterion_forward_lpips [OF ex_init_lpips mode cp ct]
  from ex_forward_lpips [of Map.empty] obtain loss where
    f: "fst (Criterion_forward ex_ext ?c ex_pred ex_gt None 0 Map.empty) = Inr loss"
    and i: "item loss = Inr (Fin 4)"
    by auto
  from f obtain lp l1 where
    lp: "lpips_LPIPS ex_ext ''vgg'' (tmap (\<lambda>v. 2 * v - 1) ex_pred)
          (tmap (\<lambda>v. 2 * v - 1) ex_gt) None = Inr lp"
    and n: "numel lp = 1"
    and l1: "masked_l1_loss ex_ext ex_pred ex_gt None = Inr l1"
    and b: "binop fadd lp l1 = Inr loss"
    unfolding t [of None 0 Map.empty loss] by auto
  have "fst (Criterion_forward ex_ext ?c ex_pred ex_gt None 1 Map.empty) = Inr lp"
    unfolding t [of None 1 Map.empty lp] using lp n by simp
  with ex_init_lpips f i lp n l1 b show ?thesis by blast
qed

theorem Criterion_forward_scalar_witness:
  "(\<exists>self loss. Criterion_init ex_ext (ex_args ''mse'') = Inr self
      \<and> fst (Criterion_forward ex_ext self ex_pred ex_gt None 0 Map.empty) = Inr loss
      \<and> numel loss = 1 \<and> shape loss = [])
   \<and> (\<exists>self loss. Criterion_init ex_ext (ex_args ''lpips'') = Inr self
      \<and> fst (Criterion_forward ex_ext self ex_pred ex_gt None 0 Map.empty) = Inr loss
      \<and> numel loss = 1)
   \<and> (\<exists>self v. Criterion_init ex_ext (ex_args ''mse'') = Inr self
      \<and> args_boundary_crop_ratio (ex_args ''mse'') \<le> 0 \<and> shape ex_gt = shape ex_pred
      \<and> fst (Criterion_forward ex_ext self ex_pred ex_gt None 1 Map.empty) = Inr (scalar v))"
proof -
  let ?m = "\<lparr>crop_ratio = 0, loss_mode = ''mse'', loss_func = LF_masked_mse_loss\<rparr>"
  have h: "(args_loss_mode (ex_args ''mse'') = ''mse'' \<or> args_loss_mode (ex_args ''mse'') = ''l1'')
      \<and> args_boundary_crop_ratio (ex_args ''mse'') \<le> 0 \<and> shape ex_gt = shape ex_pred"
    by (simp add: ex_args_def ex_gt_def ex_pred_def tensor_of_def)
  from Criterion_forward_scalar [OF ex_init_mse, THEN conjunct2, rule_format, OF h,
      of 1 Map.empty] ex_init_mse h
  have c: "\<exists>self v. Criterion_init ex_ext (ex_args ''mse'') = Inr self
      \<and> args_boundary_crop_ratio (ex_args ''mse'') \<le> 0 \<and> shape ex_gt = shape ex_pred
      \<and> fst (Criterion_forward ex_ext self ex_pred ex_gt None 1 Map.empty) = Inr (scalar v)"
    by blast
  let ?c = "\<lparr>crop_ratio = 0, loss_mode = ''lpips'', loss_func = LF_LPIPS ''vgg''\<rparr>"
  have fm: "fst (Criterion_forward ex_ext ?m ex_pred ex_gt None 0 Map.empty)
      = Inr (scalar (Fin (9 / 2)))"
    by (simp add: ex_forward_mse)
  have "numel (scalar (Fin (9 / 2)) :: fl tensor) = 1
      \<and> shape (scalar (Fin (9 / 2)) :: fl tensor) = []"
    using Criterion_forward_scalar [OF ex_init_mse, THEN conjunct1, rule_format, OF fm]
    by (simp add: ex_args_def)
  with ex_init_mse fm have a: "\<exists>self loss. Criterion_init ex_ext (ex_args ''mse'') = Inr self
      \<and> fst (Criterion_forward ex_ext self ex_pred ex_gt None 0 Map.empty) = Inr loss
      \<and> numel loss = 1 \<and> shape loss = []"
    by blast
  from ex_forward_lpips [of Map.empty] obtain loss where
    f: "fst (Criterion_forward ex_ext ?c ex_pred ex_gt None 0 Map.empty) = Inr loss"
    by auto
  have "numel loss = 1"
    using Criterion_forward_scalar [OF ex_init_lpips, THEN conjunct1, rule_format, OF f]
    by simp
  with ex_init_lpips f have b: "\<exists>self loss. Criterion_init ex_ext (ex_args ''lpips'') = Inr self
      \<and> fst (Criterion_forward ex_ext self ex_pred ex_gt None 0 Map.empty) = Inr loss
      \<and> numel loss = 1"
    by blast
  from a b c show ?thesis by (intro conjI)
qed

theorem Criterion_forward_log_witness:
  "(\<exists>self. Criterion_init ex_ext (ex_args ''mse'') = Inr self
      \<and> snd (Criterion_forward ex_ext self ex_pred ex_gt None 0 [''step'' \<mapsto> Fin 1])
          = [''step'' \<mapsto> Fin 1])
   \<and> (\<exists>self loss lp l1. Criterion_init ex_ext (ex_args ''lpips'') = Inr self
      \<and> Criterion_forward ex_ext self ex_pred ex_gt None 0 [''step'' \<mapsto> Fin 1]
          = (Inr loss, [''step'' \<mapsto> Fin 1, ''loss_perceptual'' \<mapsto> Fin 2, ''loss_l1'' \<mapsto> Fin 2])
      \<and> lpips_LPIPS ex_ext ''vgg'' (tmap (\<lambda>v. 2 * v - 1) ex_pred)
            (tmap (\<lambda>v. 2 * v - 1) ex_gt) None = Inr lp
      \<and> item lp = Inr (Fin 2)
      \<and> masked_l1_loss ex_ext ex_pred ex_gt None = Inr l1 \<and> item l1 = Inr (Fin 2))
   \<and> (\<exists>self loss. Criterion_init ex_ext (ex_args ''lpips'') = Inr self
      \<and> Criterion_forward ex_ext self ex_pred ex_gt None 1 [''step'' \<mapsto> Fin 1]
          = (Inr loss, [''step'' \<mapsto> Fin 1, ''loss_perceptual'' \<mapsto> Fin 2]))"
proof -
  let ?m = "\<lparr>crop_ratio = 0, loss_mode = ''mse'', loss_func = LF_masked_mse_loss\<rparr>"
  let ?c = "\<lparr>crop_ratio = 0, loss_mode = ''lpips'', loss_func = LF_LPIPS ''vgg''\<rparr>"
  let ?lg = "[''step'' \<mapsto> Fin 1] :: string \<rightharpoonup> fl"
  have cp: "crop ex_ext ?c ex_pred = Inr ex_pred" by (simp add: crop_def)
  have ct: "crop ex_ext ?c ex_gt = Inr ex_gt" by (simp add: crop_def)
  have "snd (Criterion_forward ex_ext ?m ex_pred ex_gt None 0 ?lg) = ?lg"
    using Criterion_forward_log [OF ex_init_mse, of ex_pred ex_gt None 0 ?lg]
    by (simp add: ex_args_def)
  with ex_init_mse have a: "\<exists>self. Criterion_init ex_ext (ex_args ''mse'') = Inr self
      \<and> snd (Criterion_forward ex_ext self ex_pred ex_gt None 0 ?lg) = ?lg"
    by blast
  from ex_forward_lpips [of ?lg] obtain loss where
    f: "Criterion_forward ex_ext ?c ex_pred ex_gt None 0 ?lg
      = (Inr loss, ?lg(''loss_perceptual'' \<mapsto> Fin 2, ''loss_l1'' \<mapsto> Fin 2))"
    by auto
  have mode: "args_loss_mode (ex_args ''lpips'') = ''lpips''"
    by (simp add: ex_args_def)
  note t = Criterion_forward_log [OF ex_init_lpips, of ex_pred ex_gt None 0 ?lg loss
      "?lg(''loss_perceptual'' \<mapsto> Fin 2, ''loss_l1'' \<mapsto> Fin 2)"]
  from t [THEN conjunct2, rule_format, OF mode f]
  obtain pred target lp v where
    cp': "crop ex_ext ?c ex_pred = Inr pred" and ct': "crop ex_ext ?c ex_gt = Inr target"
    and lp: "lpips_LPIPS ex_ext ''vgg'' (tmap (\<lambda>v. 2 * v - 1) pred)
            (tmap (\<lambda>v. 2 * v - 1) target) None = Inr lp"
    and v: "item lp = Inr v"
    and r: "if (0::int) = 0
      then \<exists>l1 v1. masked_l1_loss ex_ext pred target None = Inr l1 \<and> item l1 = Inr v1
          \<and> ?lg(''loss_perceptual'' \<mapsto> Fin 2, ''loss_l1'' \<mapsto> Fin 2)
            = ?lg(''loss_perceptual'' \<mapsto> v, ''loss_l1'' \<mapsto> v1)
      else ?lg(''loss_perceptual'' \<mapsto> Fin 2, ''loss_l1'' \<mapsto> Fin 2)
            = ?lg(''loss_perceptual'' \<mapsto> v)"
    by (elim exE conjE)
  have p: "pred = ex_pred" using cp cp' by simp
  have q: "target = ex_gt" using ct ct' by simp
  from ex_lpips_call lp have v2: "item lp = Inr (Fin 2)"
    unfolding p q by (auto simp: ex_ext_def)
  have l1: "masked_l1_loss ex_ext ex_pred ex_gt None = Inr (scalar (Fin 2))"
    by (rule ex_l1)
  have i1: "item (scalar (Fin 2) :: fl tensor) = Inr (Fin 2)"
    by (rule item_scalar)
  have b: "\<exists>self loss lp l1. Criterion_init ex_ext (ex_args ''lpips'') = Inr self
      \<and> Criterion_forward ex_ext self ex_pred ex_gt None 0 ?lg
          = (Inr loss, ?lg(''loss_perceptual'' \<mapsto> Fin 2, ''loss_l1'' \<mapsto> Fin 2))
      \<and> lpips_LPIPS ex_ext ''vgg'' (tmap (\<lambda>v. 2 * v - 1) ex_pred)
            (tmap (\<lambda>v. 2 * v - 1) ex_gt) None = Inr lp
      \<and> item lp = Inr (Fin 2)
      \<and> masked_l1_loss ex_ext ex_pred ex_gt None = Inr l1 \<and> item l1 = Inr (Fin 2)"
    using ex_init_lpips f lp [unfolded p q] v2 l1 i1 by blast
  from ex_forward_lpips_multi [of ?lg] ex_init_lpips
  have c: "\<exists>self loss. Criterion_init ex_ext (ex_args ''lpips'') = Inr self
      \<and> Criterion_forward ex_ext self ex_pred ex_gt None 1 ?lg
          = (Inr loss, ?lg(''loss_perceptual'' \<mapsto> Fin 2))"
    by blast
  from a b c show ?thesis by (intro conjI)
qed

end
